theory Spec2Isabelle
  imports Complex_Main "HOL-Library.Word" "HOL-Library.Log_Nat"
begin

unbundle bit_operations_syntax

section \<open>Browser environment shared by the client code\<close>

text \<open>
  \<open>localStorage\<close> and \<open>sessionStorage\<close> are string-keyed stores of strings:
  \<open>getItem\<close> is the lookup (\<open>None\<close> is \<open>null\<close>), \<open>setItem\<close> the update and
  \<open>removeItem\<close> the deletion of a key. A JavaScript string is truthy when it is
  not empty.
\<close>

type_synonym storage = "string \<rightharpoonup> string"

definition getItem :: "storage \<Rightarrow> string \<Rightarrow> string option" where
  "getItem st k = st k"

definition setItem :: "storage \<Rightarrow> string \<Rightarrow> string \<Rightarrow> storage" where
  "setItem st k v = st(k \<mapsto> v)"

definition removeItem :: "storage \<Rightarrow> string \<Rightarrow> storage" where
  "removeItem st k = st(k := None)"

fun truthy :: "string option \<Rightarrow> bool" where
  "truthy None = False"
| "truthy (Some s) = (s \<noteq> [])"

text \<open>\<open>a || d\<close> on an optional string \<open>a\<close> and a default \<open>d\<close>.\<close>

fun or_default :: "string option \<Rightarrow> string \<Rightarrow> string" where
  "or_default None d = d"
| "or_default (Some s) d = (if s = [] then d else s)"

text \<open>
  The outcome of an awaited \<open>fetch\<close> followed by \<open>response.json()\<close>: the promise
  rejects (network failure, or a body that is not JSON), or it resolves to an
  HTTP status code and the decoded body. \<open>response.ok\<close> is a status in 200..299.
\<close>

datatype 'a fetch_result = Rejected string | Resolved nat 'a

definition response_ok :: "nat \<Rightarrow> bool" where
  "response_ok code = (200 \<le> code \<and> code \<le> 299)"

record request =
  url :: string
  verb :: string
  headers :: "(string \<times> string) list"
  body :: "(string \<times> string) list"

text \<open>
  A \<open>URL\<close> object: the origin, the path, and the query as \<open>searchParams\<close> holds it
  (the pairs in the order they were appended).
\<close>

record URL =
  url_origin :: string
  pathname :: string
  searchParams :: "(string \<times> string) list"

text \<open>
  The parts of the browser that the client code reads and writes: the two
  storages, the console, and the URL assigned to \<open>window.location.href\<close>
  (\<open>None\<close> while no navigation has been requested).
\<close>

record browser =
  localStorage :: storage
  sessionStorage :: storage
  console :: "string list"
  location_href :: "URL option"

section \<open>OAuth with PKCE: the client utilities\<close>

text \<open>
  A \<open>Uint8Array\<close> is a list of bytes. \<open>btoa(String.fromCharCode(...buffer))\<close> is
  the base64 encoding of the bytes, with \<open>=\<close> padding (RFC 4648, section 4).
\<close>

type_synonym byte = "8 word"

definition base64_alphabet :: string where
  "base64_alphabet = ''ABCDEFGHIJKLMNOPQRSTUVWXYZabcdefghijklmnopqrstuvwxyz0123456789+/''"

definition base64_digit :: "nat \<Rightarrow> char" where
  "base64_digit n = base64_alphabet ! n"

fun btoa :: "byte list \<Rightarrow> string" where
  "btoa [] = []"
| "btoa [a] =
     [base64_digit (unat a div 4), base64_digit (unat a mod 4 * 16), CHR ''='', CHR ''='']"
| "btoa [a, b] =
     [base64_digit (unat a div 4), base64_digit (unat a mod 4 * 16 + unat b div 16),
      base64_digit (unat b mod 16 * 4), CHR ''='']"
| "btoa (a # b # c # rest) =
     [base64_digit (unat a div 4), base64_digit (unat a mod 4 * 16 + unat b div 16),
      base64_digit (unat b mod 16 * 4 + unat c div 64), base64_digit (unat c mod 64)] @ btoa rest"

text \<open>\<open>s.replace(/c/g, r)\<close>: every occurrence of the character \<open>c\<close> becomes \<open>r\<close>.\<close>

definition replace_all :: "char \<Rightarrow> string \<Rightarrow> string \<Rightarrow> string" where
  "replace_all c r s = concat (map (\<lambda>x. if x = c then r else [x]) s)"

definition base64URLEncode :: "byte list \<Rightarrow> string" where
  "base64URLEncode buffer =
     replace_all (CHR ''='') [] (replace_all (CHR ''/'') ''_'' (replace_all (CHR ''+'') ''-'' (btoa buffer)))"

text \<open>
  \<open>crypto.subtle.digest('SHA-256', data)\<close> is the platform's SHA-256 (FIPS 180-4):
  the message is padded to whole 64-byte blocks, each block extends to a
  schedule of 64 words and goes through 64 rounds on the eight state words.
\<close>

definition rotr :: "nat \<Rightarrow> 32 word \<Rightarrow> 32 word" where
  "rotr n x = word_rotr n x"

definition Ch :: "32 word \<Rightarrow> 32 word \<Rightarrow> 32 word \<Rightarrow> 32 word" where
  "Ch x y z = (x AND y) XOR (NOT x AND z)"

definition Maj :: "32 word \<Rightarrow> 32 word \<Rightarrow> 32 word \<Rightarrow> 32 word" where
  "Maj x y z = (x AND y) XOR (x AND z) XOR (y AND z)"

definition Sigma0 :: "32 word \<Rightarrow> 32 word" where
  "Sigma0 x = rotr 2 x XOR rotr 13 x XOR rotr 22 x"

definition Sigma1 :: "32 word \<Rightarrow> 32 word" where
  "Sigma1 x = rotr 6 x XOR rotr 11 x XOR rotr 25 x"

definition sigma0 :: "32 word \<Rightarrow> 32 word" where
  "sigma0 x = rotr 7 x XOR rotr 18 x XOR drop_bit 3 x"

definition sigma1 :: "32 word \<Rightarrow> 32 word" where
  "sigma1 x = rotr 17 x XOR rotr 19 x XOR drop_bit 10 x"

text \<open>
  The round constants (the first 32 bits of the fractional parts of the cube
  roots of the first 64 primes) and the initial hash value (of the square roots
  of the first 8 primes), in decimal.
\<close>

definition K256 :: "32 word list" where
  "K256 =
   [1116352408, 1899447441, 3049323471, 3921009573, 961987163, 1508970993,
    2453635748, 2870763221, 3624381080, 310598401, 607225278, 1426881987,
    1925078388, 2162078206, 2614888103, 3248222580, 3835390401, 4022224774,
    264347078, 604807628, 770255983, 1249150122, 1555081692, 1996064986,
    2554220882, 2821834349, 2952996808, 3210313671, 3336571891, 3584528711,
    113926993, 338241895, 666307205, 773529912, 1294757372, 1396182291,
    1695183700, 1986661051, 2177026350, 2456956037, 2730485921, 2820302411,
    3259730800, 3345764771, 3516065817, 3600352804, 4094571909, 275423344,
    430227734, 506948616, 659060556, 883997877, 958139571, 1322822218,
    1537002063, 1747873779, 1955562222, 2024104815, 2227730452, 2361852424,
    2428436474, 2756734187, 3204031479, 3329325298]"

definition H256 :: "32 word list" where
  "H256 =
   [1779033703, 3144134277, 1013904242, 2773480762,
    1359893119, 2600822924, 528734635, 1541459225]"

text \<open>Padding: 0x80, zeros up to 56 mod 64, the bit length as 8 big-endian bytes.\<close>

definition length_bytes :: "nat \<Rightarrow> byte list" where
  "length_bytes n =
     map (\<lambda>i. ucast (drop_bit (8 * (7 - i)) (of_nat (8 * n) :: 64 word))) [0..<8]"

definition sha_pad :: "byte list \<Rightarrow> byte list" where
  "sha_pad m =
     m @ [0x80] @ replicate ((119 - length m mod 64) mod 64) 0 @ length_bytes (length m)"

fun be_word :: "byte list \<Rightarrow> 32 word" where
  "be_word bs = foldl (\<lambda>acc b. push_bit 8 acc OR ucast b) 0 bs"

fun words_of :: "byte list \<Rightarrow> 32 word list" where
  "words_of (a # b # c # d # rest) = be_word [a, b, c, d] # words_of rest"
| "words_of _ = []"

text \<open>The message schedule, kept newest first: the head is W(t-1).\<close>

fun schedule :: "nat \<Rightarrow> 32 word list \<Rightarrow> 32 word list" where
  "schedule 0 w = w"
| "schedule (Suc n) w =
     schedule n ((sigma1 (w ! 1) + w ! 6 + sigma0 (w ! 14) + w ! 15) # w)"

fun sha_round :: "32 word list \<Rightarrow> 32 word \<times> 32 word \<Rightarrow> 32 word list" where
  "sha_round [a, b, c, d, e, f, g, h] (k, w) =
     (let t1 = h + Sigma1 e + Ch e f g + k + w;
          t2 = Sigma0 a + Maj a b c
      in [t1 + t2, a, b, c, d + t1, e, f, g])"
| "sha_round s _ = s"

definition sha_block :: "32 word list \<Rightarrow> 32 word list \<Rightarrow> 32 word list" where
  "sha_block hs ws =
     map2 (+) hs (foldl sha_round hs (zip K256 (rev (schedule 48 (rev ws)))))"

function sha_blocks :: "32 word list \<Rightarrow> 32 word list \<Rightarrow> 32 word list" where
  "sha_blocks hs ws =
     (if length ws < 16 then hs else sha_blocks (sha_block hs (take 16 ws)) (drop 16 ws))"
  by pat_completeness auto
termination
  by (relation "measure (\<lambda>(hs, ws). length ws)") auto

definition sha256 :: "byte list \<Rightarrow> byte list" where
  "sha256 m =
     concat (map (\<lambda>w. map (\<lambda>i. ucast (drop_bit (8 * (3 - i)) w)) [0..<4])
       (sha_blocks H256 (words_of (sha_pad m))))"

text \<open>
  \<open>new TextEncoder().encode(s)\<close> is the UTF-8 encoding of \<open>s\<close>. A \<open>string\<close> here is
  the text in UTF-8, one \<open>char\<close> per byte, so the encoder maps each \<open>char\<close> to its
  byte.
\<close>

definition TextEncoder_encode :: "string \<Rightarrow> byte list" where
  "TextEncoder_encode s = map (\<lambda>c. of_nat (of_char c)) s"

text \<open>
  \<open>generateCodeVerifier\<close> encodes 32 bytes from \<open>crypto.getRandomValues\<close>, which
  the model takes as the argument \<open>random\<close>.
\<close>

definition generateCodeVerifier :: "byte list \<Rightarrow> string" where
  "generateCodeVerifier random = base64URLEncode random"

definition generateCodeChallenge :: "string \<Rightarrow> string" where
  "generateCodeChallenge verifier = base64URLEncode (sha256 (TextEncoder_encode verifier))"

text \<open>
  The reference the specification names for the challenge: base64url, the
  encoding of RFC 4648 section 5 with the alphabet that ends in \<open>-\<close> and \<open>_\<close>,
  written without padding.
\<close>

definition base64url_alphabet :: string where
  "base64url_alphabet = ''ABCDEFGHIJKLMNOPQRSTUVWXYZabcdefghijklmnopqrstuvwxyz0123456789-_''"

definition base64url_digit :: "nat \<Rightarrow> char" where
  "base64url_digit n = base64url_alphabet ! n"

fun base64url_unpadded :: "byte list \<Rightarrow> string" where
  "base64url_unpadded [] = []"
| "base64url_unpadded [a] =
     [base64url_digit (unat a div 4), base64url_digit (unat a mod 4 * 16)]"
| "base64url_unpadded [a, b] =
     [base64url_digit (unat a div 4), base64url_digit (unat a mod 4 * 16 + unat b div 16),
      base64url_digit (unat b mod 16 * 4)]"
| "base64url_unpadded (a # b # c # rest) =
     [base64url_digit (unat a div 4), base64url_digit (unat a mod 4 * 16 + unat b div 16),
      base64url_digit (unat b mod 16 * 4 + unat c div 64), base64url_digit (unat c mod 64)]
     @ base64url_unpadded rest"

text \<open>The three replacements of \<open>base64URLEncode\<close>, as one function of the base64 text.\<close>

definition url_safe :: "string \<Rightarrow> string" where
  "url_safe s = replace_all (CHR ''='') [] (replace_all (CHR ''/'') ''_'' (replace_all (CHR ''+'') ''-'' s))"

subsection \<open>Configuration and the form values kept across the redirect\<close>

text \<open>The three \<open>process.env\<close> values the OAuth client reads (\<open>None\<close>: not set).\<close>

record oauth_env =
  NEXT_PUBLIC_VALYU_CLIENT_ID :: "string option"
  NEXT_PUBLIC_VALYU_AUTH_URL :: "string option"
  NEXT_PUBLIC_REDIRECT_URI :: "string option"

definition isOAuthConfigured :: "oauth_env \<Rightarrow> bool" where
  "isOAuthConfigured env =
     (truthy (NEXT_PUBLIC_VALYU_CLIENT_ID env) \<and> truthy (NEXT_PUBLIC_VALYU_AUTH_URL env)
      \<and> truthy (NEXT_PUBLIC_REDIRECT_URI env))"

record OAuthFormValues =
  fv_supplementName :: "string option"
  fv_researchFocus :: "string option"

definition OAUTH_FORM_VALUES_KEY :: string where
  "OAUTH_FORM_VALUES_KEY = ''oauth_form_values''"

text \<open>
  \<open>JSON.stringify\<close> and \<open>JSON.parse\<close> are the platform's; the functions that call
  them take them as the parameters \<open>stringify\<close> and \<open>parse\<close>. \<open>JSON.parse\<close> throws
  a \<open>SyntaxError\<close> or returns a value, which is \<open>null\<close> (\<open>Parsed None\<close>) for the
  text \<open>null\<close>.
\<close>

datatype 'v json_result = SyntaxError | Parsed "'v option"

definition saveFormValuesBeforeOAuth ::
  "(OAuthFormValues \<Rightarrow> string) \<Rightarrow> OAuthFormValues \<Rightarrow> 'a browser_scheme \<Rightarrow> 'a browser_scheme" where
  "saveFormValuesBeforeOAuth stringify values b =
     b\<lparr>localStorage := setItem (localStorage b) OAUTH_FORM_VALUES_KEY (stringify values)\<rparr>"

text \<open>
  \<open>restoreFormValuesAfterOAuth\<close> returns its result (\<open>None\<close> is \<open>null\<close>) and the
  browser it leaves. The stored text is removed before it is parsed, and only
  when it is truthy.
\<close>

definition restoreFormValuesAfterOAuth ::
  "(string \<Rightarrow> 'v json_result) \<Rightarrow> 'a browser_scheme \<Rightarrow> 'v option \<times> 'a browser_scheme" where
  "restoreFormValuesAfterOAuth parse b =
     (let storedValues = getItem (localStorage b) OAUTH_FORM_VALUES_KEY
      in if truthy storedValues then
           (let b1 = b\<lparr>localStorage := removeItem (localStorage b) OAUTH_FORM_VALUES_KEY\<rparr>
            in case parse (the storedValues) of
                 Parsed v \<Rightarrow> (v, b1)
               | SyntaxError \<Rightarrow> (None, b1))
         else (None, b))"

subsection \<open>Starting the flow\<close>

text \<open>
  \<open>new URL(path, base)\<close> for a \<open>path\<close> that starts with a slash, as the one call
  has it: the platform's URL parser reads \<open>base\<close>, and the result keeps what
  \<open>base\<close> has before its path (scheme, host and port, that is its origin, with
  the user information when \<open>base\<close> has some), takes the given path and has no
  query. \<open>origin_of\<close> is the platform's parser: that first part of an absolute
  URL, \<open>None\<close> where the constructor throws a \<open>TypeError\<close>.
\<close>

definition new_URL :: "(string \<Rightarrow> string option) \<Rightarrow> string \<Rightarrow> string \<Rightarrow> URL option" where
  "new_URL origin_of path base =
     (case origin_of base of
        None \<Rightarrow> None
      | Some org \<Rightarrow> Some \<lparr>url_origin = org, pathname = path, searchParams = []\<rparr>)"

definition searchParams_append :: "string \<Rightarrow> string \<Rightarrow> URL \<Rightarrow> URL" where
  "searchParams_append k v u = u\<lparr>searchParams := searchParams u @ [(k, v)]\<rparr>"

text \<open>
  An \<open>async\<close> function either returns or throws (its promise rejects); what it
  has written by then stays written.
\<close>

datatype outcome = Returned | Thrown string

definition OAUTH_WARNING :: string where
  "OAUTH_WARNING = ''OAuth is not configured. Set NEXT_PUBLIC_VALYU_CLIENT_ID, NEXT_PUBLIC_VALYU_AUTH_URL, and NEXT_PUBLIC_REDIRECT_URI.''"

text \<open>
  \<open>initiateOAuthFlow\<close>. \<open>random1\<close> and \<open>random2\<close> are the bytes that the two calls of
  \<open>generateCodeVerifier\<close> draw. The non-null assertions \<open>!\<close> on the environment
  are \<open>the\<close>: they come after the configuration check. The flow awaits the
  digest once, between saving the form values and storing the verifier; the
  model runs it through, as nothing else writes these keys.
\<close>

definition initiateOAuthFlow ::
  "(string \<Rightarrow> string option) \<Rightarrow> (OAuthFormValues \<Rightarrow> string) \<Rightarrow> oauth_env \<Rightarrow> byte list \<Rightarrow> byte list
   \<Rightarrow> OAuthFormValues option \<Rightarrow> 'a browser_scheme \<Rightarrow> outcome \<times> 'a browser_scheme" where
  "initiateOAuthFlow origin_of stringify env random1 random2 formValues b =
     (if \<not> isOAuthConfigured env then
        (Returned, b\<lparr>console := console b @ [OAUTH_WARNING]\<rparr>)
      else
        (let b1 = (case formValues of
                     Some values \<Rightarrow> saveFormValuesBeforeOAuth stringify values b
                   | None \<Rightarrow> b);
             codeVerifier = generateCodeVerifier random1;
             codeChallenge = generateCodeChallenge codeVerifier;
             b2 = b1\<lparr>sessionStorage := setItem (sessionStorage b1) ''oauth_code_verifier'' codeVerifier\<rparr>;
             state = generateCodeVerifier random2;
             b3 = b2\<lparr>sessionStorage := setItem (sessionStorage b2) ''oauth_state'' state\<rparr>
         in case new_URL origin_of ''/auth/v1/oauth/authorize'' (the (NEXT_PUBLIC_VALYU_AUTH_URL env)) of
              None \<Rightarrow> (Thrown ''TypeError: Invalid URL'', b3)
            | Some authUrl \<Rightarrow>
                (Returned,
                 b3\<lparr>location_href := Some
                   (searchParams_append ''state'' state
                   (searchParams_append ''code_challenge_method'' ''S256''
                   (searchParams_append ''code_challenge'' codeChallenge
                   (searchParams_append ''scope'' ''openid profile email''
                   (searchParams_append ''response_type'' ''code''
                   (searchParams_append ''redirect_uri'' (the (NEXT_PUBLIC_REDIRECT_URI env))
                   (searchParams_append ''client_id'' (the (NEXT_PUBLIC_VALYU_CLIENT_ID env))
                      authUrl)))))))\<rparr>)))"

text \<open>
  What the browser keeps, by the storages' own rules: a new browsing session
  (another tab, or the browser started again) begins with an empty
  \<open>sessionStorage\<close> and the \<open>localStorage\<close> the origin had; the navigation to the
  authorization server and back, in one tab, keeps both.
\<close>

definition new_browsing_session :: "'a browser_scheme \<Rightarrow> 'a browser_scheme" where
  "new_browsing_session b = b\<lparr>sessionStorage := Map.empty, location_href := None\<rparr>"

definition navigate_away_and_back :: "'a browser_scheme \<Rightarrow> 'a browser_scheme" where
  "navigate_away_and_back b = b\<lparr>location_href := None\<rparr>"

section \<open>The page component: polling, reset and cancellation\<close>

text \<open>The \<open>User\<close> interface of the page.\<close>

record User =
  user_id :: string
  email :: string
  name :: "string option"
  picture :: "string option"
  email_verified :: "bool option"

text \<open>
  The JSON a status check returns, as the results view reads it (interfaces
  \<open>Source\<close>, \<open>Usage\<close>, \<open>Progress\<close>, \<open>Deliverable\<close>, \<open>ResearchResult\<close>), with the
  \<open>error\<close> field that \<open>pollStatus\<close> reads from an error body.
\<close>

record Progress =
  current_step :: nat
  total_steps :: nat

record Deliverable =
  deliverable_type :: string
  deliverable_url :: string
  description :: "string option"

record Usage =
  search_cost :: "rat option"
  ai_cost :: "rat option"
  compute_cost :: "rat option"
  total_cost :: "rat option"

record ResearchResult =
  success :: bool
  deepresearch_id :: string
  status :: string
  output_text :: "string option"
  sources :: "(string \<times> string) list option"
  usage :: "Usage option"
  pdf_url :: "string option"
  deliverables :: "Deliverable list option"
  progress :: "Progress option"
  error :: "string option"

text \<open>
  The state of \<open>HomeContent\<close>, on top of the browser it runs in: its \<open>useState\<close>
  cells, the two refs (\<open>cancelledRef\<close>, \<open>pollIntervalRef\<close>), and the interval timers
  that are running (handle and the task id its callback closes over). \<open>setInterval\<close> hands out
  fresh handles, which are positive numbers and so truthy: \<open>pollIntervalRef\<close> is
  \<open>None\<close> for \<open>null\<close>. A state setter is modelled as an immediate update: no
  handler reads a cell it has just set.
\<close>

record page_state = browser +
  analysisResult :: "ResearchResult option"
  isAnalyzing :: bool
  showSignInModal :: bool
  user :: "User option"
  supplementName :: string
  researchFocus :: string
  currentTaskId :: "string option"
  isCancelling :: bool
  cancelledRef :: bool
  pollIntervalRef :: "nat option"
  timers :: "(nat \<times> string) list"
  nextTimer :: nat

definition setInterval :: "string \<Rightarrow> page_state \<Rightarrow> nat \<times> page_state" where
  "setInterval taskId s =
     (let h = Suc (nextTimer s)
      in (h, s\<lparr>timers := timers s @ [(h, taskId)], nextTimer := h\<rparr>))"

definition clearInterval :: "nat \<Rightarrow> page_state \<Rightarrow> page_state" where
  "clearInterval h s = s\<lparr>timers := filter (\<lambda>t. fst t \<noteq> h) (timers s)\<rparr>"

text \<open>
  The recurring block \<open>if (pollIntervalRef.current) { clearInterval(...);
  pollIntervalRef.current = null; }\<close>.
\<close>

definition stopPolling :: "page_state \<Rightarrow> page_state" where
  "stopPolling s =
     (case pollIntervalRef s of
        None \<Rightarrow> s
      | Some h \<Rightarrow> (clearInterval h s)\<lparr>pollIntervalRef := None\<rparr>)"

text \<open>
  \<open>getAuthHeaders\<close>: a bearer header in hosted mode when a non-empty token is
  stored. \<open>isSelfHosted\<close> is the result of \<open>isSelfHostedMode()\<close>, a function of
  the deployment that the handlers take as a parameter.
\<close>

definition getAuthHeaders :: "bool \<Rightarrow> page_state \<Rightarrow> (string \<times> string) list" where
  "getAuthHeaders isSelfHosted s =
     (if \<not> isSelfHosted then
        (case getItem (localStorage s) ''valyu_access_token'' of
           Some tok \<Rightarrow> (if tok \<noteq> [] then [(''Authorization'', ''Bearer '' @ tok)] else [])
         | None \<Rightarrow> [])
      else [])"

text \<open>
  \<open>pollStatus\<close> suspends once, at the \<open>await\<close> of the status request. The part
  before it either returns at once (cancelled) or sends the request; the part
  after it runs when the response arrives, on whatever the state is by then.
\<close>

definition pollStatus_send :: "bool \<Rightarrow> string \<Rightarrow> page_state \<Rightarrow> request option" where
  "pollStatus_send isSelfHosted taskId s =
     (if cancelledRef s then None
      else Some \<lparr>url = ''/api/supplement-research/status?taskId='' @ taskId,
                 verb = ''GET'',
                 headers = getAuthHeaders isSelfHosted s,
                 body = []\<rparr>)"

definition is_terminal :: "string \<Rightarrow> bool" where
  "is_terminal st = (st = ''completed'' \<or> st = ''failed'' \<or> st = ''cancelled'')"

definition pollStatus_receive :: "ResearchResult fetch_result \<Rightarrow> page_state \<Rightarrow> page_state" where
  "pollStatus_receive r s =
     (case r of
        Rejected msg \<Rightarrow> s\<lparr>console := console s @ [''Polling error: '' @ msg]\<rparr>
      | Resolved code data \<Rightarrow>
          if \<not> response_ok code then
            (if error data = Some ''AUTH_REQUIRED'' then
               (stopPolling
                  (s\<lparr>localStorage :=
                       removeItem (removeItem (localStorage s) ''valyu_access_token'') ''valyu_user'',
                     user := None,
                     showSignInModal := True\<rparr>))\<lparr>isAnalyzing := False\<rparr>
             else
               s\<lparr>console := console s @
                   [''Polling error: '' @ or_default (error data) ''Failed to check status'']\<rparr>)
          else if cancelledRef s then s
          else
            (let s1 = s\<lparr>analysisResult := Some data\<rparr>
             in if is_terminal (status data) then
                  (let s2 = stopPolling s1
                   in if status data \<noteq> ''completed'' then s2\<lparr>isAnalyzing := False\<rparr> else s2)
                else s1))"

definition handleTaskCreated :: "bool \<Rightarrow> string \<Rightarrow> page_state \<Rightarrow> request option \<times> page_state" where
  "handleTaskCreated isSelfHosted taskId s =
     (let s1 = s\<lparr>cancelledRef := False, isAnalyzing := True, currentTaskId := Some taskId\<rparr>;
          req = pollStatus_send isSelfHosted taskId s1;
          (h, s2) = setInterval taskId s1
      in (req, s2\<lparr>pollIntervalRef := Some h\<rparr>))"

text \<open>A tick of a running interval timer calls \<open>pollStatus\<close> with its task id.\<close>

definition timer_tick :: "bool \<Rightarrow> nat \<Rightarrow> page_state \<Rightarrow> request option" where
  "timer_tick isSelfHosted h s =
     (case map_of (timers s) h of
        None \<Rightarrow> None
      | Some taskId \<Rightarrow> pollStatus_send isSelfHosted taskId s)"

definition handleReset :: "page_state \<Rightarrow> page_state" where
  "handleReset s =
     (stopPolling s)\<lparr>analysisResult := None, isAnalyzing := False, currentTaskId := None,
                     isCancelling := False, supplementName := [], researchFocus := []\<rparr>"

text \<open>
  \<open>handleCancel\<close> suspends at the \<open>await\<close> of the cancel request. Before it: the
  flag is set first; with a falsy task id (\<open>null\<close> or the empty string) the
  handler resets and is done (\<open>None\<close>: nothing is sent), otherwise it shows the
  spinner and sends the request. After it: whatever the request did (it
  resolved with any status, or it rejected, which is logged), \<open>handleReset\<close> runs.
\<close>

definition handleCancel_send :: "bool \<Rightarrow> page_state \<Rightarrow> request option \<times> page_state" where
  "handleCancel_send isSelfHosted s =
     (let s1 = s\<lparr>cancelledRef := True\<rparr>
      in if \<not> truthy (currentTaskId s1) then (None, handleReset s1)
         else
           (let s2 = s1\<lparr>isCancelling := True\<rparr>
            in (Some \<lparr>url = ''/api/supplement-research/cancel'',
                      verb = ''POST'',
                      headers = (''Content-Type'', ''application/json'') # getAuthHeaders isSelfHosted s2,
                      body = [(''taskId'', the (currentTaskId s1))]\<rparr>,
                s2)))"

definition handleCancel_receive :: "unit fetch_result \<Rightarrow> page_state \<Rightarrow> page_state" where
  "handleCancel_receive r s =
     (case r of
        Rejected msg \<Rightarrow> handleReset (s\<lparr>console := console s @ [''Failed to cancel task: '' @ msg]\<rparr>)
      | Resolved code u \<Rightarrow> handleReset s)"

text \<open>\<open>isHomepage\<close>: no analysis in progress and no snapshot shown.\<close>

definition isHomepage :: "page_state \<Rightarrow> bool" where
  "isHomepage s = (\<not> isAnalyzing s \<and> analysisResult s = None)"

text \<open>The \<open>useState\<close> and \<open>useRef\<close> defaults, in a browser with nothing stored.\<close>

definition initial_state :: page_state where
  "initial_state =
     \<lparr>localStorage = Map.empty, sessionStorage = Map.empty, console = [], location_href = None,
      analysisResult = None, isAnalyzing = False, showSignInModal = False, user = None,
      supplementName = [], researchFocus = [], currentTaskId = None, isCancelling = False,
      cancelledRef = False, pollIntervalRef = None, timers = [], nextTimer = 0\<rparr>"

text \<open>
  The controller is idle: the homepage is shown, no task is current, no timer
  is referenced and no cancellation is in progress.
\<close>

definition idle :: "page_state \<Rightarrow> bool" where
  "idle s = (isHomepage s \<and> currentTaskId s = None \<and> pollIntervalRef s = None \<and> \<not> isCancelling s)"

text \<open>\<open>handleCancel\<close> run to its end on the outcome \<open>net\<close> gives to its request, with
  nothing else happening in between.\<close>

definition handleCancel :: "bool \<Rightarrow> (request \<Rightarrow> unit fetch_result) \<Rightarrow> page_state \<Rightarrow> page_state" where
  "handleCancel isSelfHosted net s =
     (case handleCancel_send isSelfHosted s of
        (None, s') \<Rightarrow> s'
      | (Some req, s') \<Rightarrow> handleCancel_receive (net req) s')"

section \<open>The results view: the progress percentage\<close>

text \<open>
  JavaScript numbers are IEEE 754 binary64 values. A finite one is a rational
  number, and an arithmetic operation returns the exact result rounded to the
  nearest representable value, ties to the even significand. \<open>binary64 x\<close> is
  that rounding for a non-negative \<open>x\<close> in the normal range: \<open>ilog2 x\<close> is the
  exponent \<open>e\<close> with \<open>2^e \<le> x < 2^(e+1)\<close>, and the result is the multiple of
  \<open>2^(e-52)\<close> nearest to \<open>x\<close>. Step counts below \<open>2^53\<close> are exact, and their
  quotients and the products with 100 stay in the normal range.
\<close>

definition round_half_even :: "rat \<Rightarrow> int" where
  "round_half_even x =
     (let f = \<lfloor>x\<rfloor>; d = x - of_int f
      in if d < 1 / 2 then f else if 1 / 2 < d then f + 1 else if even f then f else f + 1)"

definition ilog2 :: "rat \<Rightarrow> int" where
  "ilog2 x =
     (let e0 = bitlen (fst (quotient_of x)) - bitlen (snd (quotient_of x))
      in if 2 powi e0 \<le> x then e0 else e0 - 1)"

definition binary64 :: "rat \<Rightarrow> rat" where
  "binary64 x =
     (if x \<le> 0 then 0
      else of_int (round_half_even (x / 2 powi (ilog2 x - 52))) * 2 powi (ilog2 x - 52))"

text \<open>\<open>Math.round\<close>: the nearest integer, a half rounding up.\<close>

definition Math_round :: "rat \<Rightarrow> int" where
  "Math_round x = \<lfloor>x + 1 / 2\<rfloor>"

text \<open>
  The text before the percent sign:
  \<open>Math.round((current_step / total_steps) * 100)\<close>. With \<open>total_steps\<close> zero the
  quotient is \<open>NaN\<close> or \<open>Infinity\<close> and no integer is shown (\<open>None\<close>).
\<close>

definition percentage :: "Progress \<Rightarrow> int option" where
  "percentage p =
     (if total_steps p = 0 then None
      else Some (Math_round (binary64
             (binary64 (of_nat (current_step p) / of_nat (total_steps p)) * 100))))"

text \<open>
  The specification's \<open>round(100 * c / t)\<close>, in exact arithmetic, and the payloads
  for which \<open>100 * c / t\<close> lies exactly half-way between two integers.
\<close>

definition round_percent :: "nat \<Rightarrow> nat \<Rightarrow> int" where
  "round_percent c t = \<lfloor>100 * of_nat c / of_nat t + (1 / 2 :: rat)\<rfloor>"

definition half_way :: "nat \<Rightarrow> nat \<Rightarrow> bool" where
  "half_way c t = ((200 * c + t) mod (2 * t) = 0)"

section \<open>The route that creates a research task\<close>

text \<open>
  The \<open>POST\<close> handler gets the deployment mode (\<open>isSelfHostedMode()\<close>), the request, and
  the two ways to reach the research API as parameters: \<open>proxy\<close> is the \<open>fetch\<close> of
  the OAuth proxy followed by \<open>response.json()\<close> (the decoded body, or the message
  of the error that the decoding throws), \<open>sdk\<close> is \<open>valyu.deepresearch.create\<close>
  (the task it returns, or the message of the error it throws).
\<close>

record deliverable_spec =
  spec_type :: string
  spec_description :: string
  spec_columns :: "string list option"
  spec_include_headers :: "bool option"

record research_call =
  bearer :: "string option"
  call_input :: string
  call_model :: string
  call_output_formats :: "string list"
  call_deliverables :: "deliverable_spec list"

record task_reply =
  reply_error :: "string option"
  reply_deepresearch_id :: "string option"

text \<open>A thrown \<open>Error\<close>: its message and the \<open>isAuthError\<close> mark.\<close>

record js_error =
  message :: string
  isAuthError :: bool

definition Error :: "string \<Rightarrow> js_error" where
  "Error msg = \<lparr>message = msg, isAuthError = False\<rparr>"

text \<open>\<open>s.includes(sub)\<close> and \<open>s.startsWith(p)\<close>.\<close>

fun str_includes :: "string \<Rightarrow> string \<Rightarrow> bool" where
  "str_includes [] sub = (sub = [])"
| "str_includes (x # xs) sub = (take (length sub) (x # xs) = sub \<or> str_includes xs sub)"

definition startsWith :: "string \<Rightarrow> string \<Rightarrow> bool" where
  "startsWith s p = (take (length p) s = p)"

text \<open>A number in a template literal: its decimal digits.\<close>

function show_nat :: "nat \<Rightarrow> string" where
  "show_nat n =
     (if n < 10 then [char_of (48 + n)]
      else show_nat (n div 10) @ [char_of (48 + n mod 10)])"
  by pat_completeness auto
termination
  by (relation "measure id") auto

definition deliverables_for :: "string \<Rightarrow> deliverable_spec list" where
  "deliverables_for supplement =
     [\<lparr>spec_type = ''csv'',
       spec_description = ''CSV file listing supplement brands selling '' @ supplement @
         '', including brand name, price per serving, dosage, third-party testing status, form (capsule/powder/liquid), and where to buy'',
       spec_columns = Some [''Brand'', ''Product Name'', ''Price'', ''Price Per Serving'', ''Dosage'',
         ''Form'', ''Third-Party Tested'', ''Rating'', ''Where to Buy''],
       spec_include_headers = Some True\<rparr>,
      \<lparr>spec_type = ''docx'',
       spec_description = ''One-page summary document about '' @ supplement @
         '' covering: what it is, key benefits, recommended dosage, best time to take, potential side effects, who should avoid it, and drug interactions'',
       spec_columns = None,
       spec_include_headers = None\<rparr>]"

definition callValyuDeepResearch ::
  "(research_call \<Rightarrow> (string + task_reply) fetch_result) \<Rightarrow> (research_call \<Rightarrow> string + task_reply)
   \<Rightarrow> string \<Rightarrow> string \<Rightarrow> string option \<Rightarrow> (js_error + task_reply) \<times> research_call" where
  "callValyuDeepResearch proxy sdk input supplement valyuAccessToken =
     (let call = \<lparr>bearer = (if truthy valyuAccessToken then valyuAccessToken else None),
                   call_input = input, call_model = ''fast'',
                   call_output_formats = [''markdown'', ''pdf''],
                   call_deliverables = deliverables_for supplement\<rparr>
      in if truthy valyuAccessToken then
           (case proxy call of
              Rejected msg \<Rightarrow> (Inl (Error msg), call)
            | Resolved code decoded \<Rightarrow>
                if \<not> response_ok code then
                  (let errorData = (case decoded of Inl msg \<Rightarrow> None | Inr data \<Rightarrow> reply_error data)
                   in if code = 401 \<or> code = 403
                         \<or> (case errorData of Some e \<Rightarrow> str_includes e ''invalid_token'' | None \<Rightarrow> False)
                         \<or> (case errorData of Some e \<Rightarrow> str_includes e ''expired'' | None \<Rightarrow> False)
                         \<or> (case errorData of Some e \<Rightarrow> str_includes e ''unauthorized'' | None \<Rightarrow> False)
                      then (Inl \<lparr>message = ''AUTH_REQUIRED'', isAuthError = True\<rparr>, call)
                      else (Inl (Error (or_default errorData (''Proxy request failed: '' @ show_nat code))), call))
                else
                  (case decoded of
                     Inl msg \<Rightarrow> (Inl (Error msg), call)
                   | Inr data \<Rightarrow> (Inr data, call)))
         else
           (case sdk call of
              Inl msg \<Rightarrow> (Inl (Error msg), call)
            | Inr data \<Rightarrow> (Inr data, call)))"

text \<open>
  The request: the \<open>Authorization\<close> header and what \<open>await req.json()\<close> with the
  destructuring gives. \<open>BodyThrows\<close> is a body that is not JSON, or the JSON
  \<open>null\<close>, which cannot be destructured; every other JSON value has the four
  fields or lacks them.
\<close>

record post_fields =
  pf_supplementName :: "string option"
  pf_researchFocus :: "string option"
  pf_currentSupplements :: "string option"
  pf_healthGoals :: "string option"

datatype request_body = BodyThrows string | BodyObject post_fields

record http_request =
  authorization :: "string option"
  json_body :: request_body

record http_response =
  http_status :: nat
  r_error :: "string option"
  r_message :: "string option"
  r_success :: "bool option"
  r_deepresearch_id :: "string option"
  r_status :: "string option"

definition json_error :: "nat \<Rightarrow> string \<Rightarrow> string option \<Rightarrow> http_response" where
  "json_error code err msg =
     \<lparr>http_status = code, r_error = Some err, r_message = msg, r_success = None,
      r_deepresearch_id = None, r_status = None\<rparr>"

text \<open>The lines of a template literal, joined by line feeds.\<close>

definition unlines :: "string list \<Rightarrow> string" where
  "unlines ls = concat (map (\<lambda>l. l @ [CHR 0x0A]) (butlast ls)) @ last ls"

definition interactionSection :: "string option \<Rightarrow> string \<Rightarrow> string" where
  "interactionSection currentSupplements supplement =
     (if truthy currentSupplements then
        unlines
          [[],
           ''    IMPORTANT - INTERACTION CHECK:'',
           ''    The user is currently taking: '' @ the currentSupplements,
           ''    Please thoroughly analyze potential interactions between '' @ supplement @
             '' and these supplements/medications.'',
           ''    Include: timing considerations, absorption interference, contraindications, and safety recommendations.'']
      else [])"

definition stackSection :: "string option \<Rightarrow> string \<Rightarrow> string" where
  "stackSection healthGoals supplement =
     (if truthy healthGoals then
        unlines
          [[],
           ''    STACK BUILDING:'',
           ''    The user'' @ [CHR 0x27] @ ''s health goals are: '' @ the healthGoals,
           ''    Based on these goals, suggest complementary supplements that would work well with '' @
             supplement @ ''.'',
           ''    Include: synergistic combinations, optimal timing/dosing schedule, and what to avoid combining.'']
      else [])"

definition researchQuery :: "post_fields \<Rightarrow> string" where
  "researchQuery f =
     (let supplement = the (pf_supplementName f)
      in unlines
          [''Research the supplement: '' @ supplement @ ''.'',
           ''    '' @ (if truthy (pf_researchFocus f) then ''Focus areas: '' @ the (pf_researchFocus f) else []),
           ''    '' @ interactionSection (pf_currentSupplements f) supplement,
           ''    '' @ stackSection (pf_healthGoals f) supplement,
           [],
           ''    Provide a comprehensive analysis including:'',
           ''    - What '' @ supplement @ '' is and how it works in the body'',
           ''    - Scientific evidence for its benefits (cite studies where possible)'',
           ''    - Recommended dosage and best time to take it'',
           ''    - Different forms available (capsule, powder, liquid, etc.) and bioavailability'',
           ''    - Potential side effects and contraindications'',
           ''    - Drug interactions to be aware of'',
           ''    - Who should and shouldn'' @ [CHR 0x27] @ ''t take this supplement'',
           ''    - Quality markers to look for when buying (third-party testing, certifications)'',
           ''    - Top brands and products available with pricing'',
           ''    - Natural food sources as alternatives'',
           [],
           ''    Be thorough but focus on evidence-based information from reputable sources.''])"

text \<open>The \<open>catch\<close> block of the handler.\<close>

definition POST_catch :: "js_error \<Rightarrow> http_response" where
  "POST_catch e =
     (if isAuthError e \<or> message e = ''AUTH_REQUIRED'' then
        json_error 401 ''AUTH_REQUIRED'' (Some ''Your session has expired. Please sign in again.'')
      else json_error 500 (''Failed to perform deep research: '' @ message e) None)"

definition bearer_token :: "string option \<Rightarrow> string option" where
  "bearer_token authHeader =
     (case authHeader of
        None \<Rightarrow> None
      | Some h \<Rightarrow> if startsWith h ''Bearer '' then Some (drop 7 h) else None)"

text \<open>
  \<open>POST\<close> returns the response and the calls made to the research API, in
  order: a task is created only by such a call.
\<close>

definition POST ::
  "bool \<Rightarrow> (research_call \<Rightarrow> (string + task_reply) fetch_result) \<Rightarrow> (research_call \<Rightarrow> string + task_reply)
   \<Rightarrow> http_request \<Rightarrow> http_response \<times> research_call list" where
  "POST isSelfHosted proxy sdk req =
     (let valyuAccessToken = bearer_token (authorization req)
      in if \<not> isSelfHosted \<and> \<not> truthy valyuAccessToken then
           (json_error 401 ''AUTH_REQUIRED'' (Some ''Sign in with Valyu to continue.''), [])
         else
           (case json_body req of
              BodyThrows msg \<Rightarrow> (POST_catch (Error msg), [])
            | BodyObject f \<Rightarrow>
                if \<not> truthy (pf_supplementName f) then
                  (json_error 400 ''Supplement name is required'' None, [])
                else
                  (case callValyuDeepResearch proxy sdk (researchQuery f) (the (pf_supplementName f))
                          (if isSelfHosted then None else valyuAccessToken) of
                     (Inl e, call) \<Rightarrow> (POST_catch e, [call])
                   | (Inr task, call) \<Rightarrow>
                       if \<not> truthy (reply_deepresearch_id task) then
                         (POST_catch (Error ''Failed to create deep research task''), [call])
                       else
                         (\<lparr>http_status = 200, r_error = None,
                           r_message = Some ''Research task created. Poll the status endpoint to check progress.'',
                           r_success = Some True,
                           r_deepresearch_id = reply_deepresearch_id task,
                           r_status = Some ''queued''\<rparr>,
                          [call]))))"

section \<open>Example payloads, states and configurations\<close>

definition example_running :: ResearchResult where
  "example_running =
     \<lparr>success = True, deepresearch_id = ''abc123'', status = ''running'', output_text = None,
      sources = None, usage = None, pdf_url = None, deliverables = None,
      progress = Some \<lparr>current_step = 1, total_steps = 5\<rparr>, error = None\<rparr>"


definition example_auth_required :: ResearchResult where
  "example_auth_required =
     \<lparr>success = False, deepresearch_id = [], status = [], output_text = None,
      sources = None, usage = None, pdf_url = None, deliverables = None,
      progress = None, error = Some ''AUTH_REQUIRED''\<rparr>"

definition example_polling :: page_state where
  "example_polling = snd (handleTaskCreated True ''abc123'' initial_state)"

definition example_signed_in :: page_state where
  "example_signed_in =
     example_polling\<lparr>localStorage :=
        [''valyu_access_token'' \<mapsto> ''token-1'', ''valyu_user'' \<mapsto> ''{}'', ''oauth_form_values'' \<mapsto> ''{}'']\<rparr>"

text \<open>
  The server's answer for a task that was cancelled, and the page after the task
  \<open>abc123\<close> was cancelled (the cancel request answered 200) and a task \<open>task-B\<close>
  was started.
\<close>

definition example_cancelled :: ResearchResult where
  "example_cancelled = example_running\<lparr>status := ''cancelled'', progress := None\<rparr>"

definition example_restarted :: page_state where
  "example_restarted =
     snd (handleTaskCreated True ''task-B''
       (handleCancel True (\<lambda>req. Resolved 200 ()) example_polling))"

definition example_browser :: browser where
  "example_browser =
     \<lparr>localStorage = Map.empty, sessionStorage = Map.empty, console = [], location_href = None\<rparr>"

definition example_values :: OAuthFormValues where
  "example_values = \<lparr>fv_supplementName = Some ''Magnesium'', fv_researchFocus = Some ''sleep''\<rparr>"

definition example_json :: string where
  "example_json = ''{\"supplementName\":\"Magnesium\",\"researchFocus\":\"sleep\"}''"

text \<open>
  The platform's JSON codec and URL parser on the texts of the examples. Outside
  them \<open>example_parse\<close> and \<open>example_origin_of\<close> answer as for a text that does not
  parse; they are used on these texts only.
\<close>

definition example_stringify :: "OAuthFormValues \<Rightarrow> string" where
  "example_stringify v = (if v = example_values then example_json else ''{}'')"

definition example_parse :: "string \<Rightarrow> OAuthFormValues json_result" where
  "example_parse s =
     (if s = example_json then Parsed (Some example_values)
      else if s = ''{}'' then Parsed (Some \<lparr>fv_supplementName = None, fv_researchFocus = None\<rparr>)
      else if s = ''null'' then Parsed None
      else SyntaxError)"

definition example_origin_of :: "string \<Rightarrow> string option" where
  "example_origin_of s =
     (if take 8 s = ''https://'' \<and> takeWhile (\<lambda>c. c \<notin> set ''/?#'') (drop 8 s) \<noteq> []
      then Some (''https://'' @ takeWhile (\<lambda>c. c \<notin> set ''/?#'') (drop 8 s))
      else if take 7 s = ''http://'' \<and> takeWhile (\<lambda>c. c \<notin> set ''/?#'') (drop 7 s) \<noteq> []
      then Some (''http://'' @ takeWhile (\<lambda>c. c \<notin> set ''/?#'') (drop 7 s))
      else None)"

definition example_env :: oauth_env where
  "example_env =
     \<lparr>NEXT_PUBLIC_VALYU_CLIENT_ID = Some ''client-123'',
      NEXT_PUBLIC_VALYU_AUTH_URL = Some ''https://auth.valyu.ai'',
      NEXT_PUBLIC_REDIRECT_URI = Some ''http://localhost:3000/auth/valyu/callback''\<rparr>"

definition example_random1 :: "byte list" where
  "example_random1 = replicate 32 1"

definition example_random2 :: "byte list" where
  "example_random2 = replicate 32 2"

definition example_env_with_path :: oauth_env where
  "example_env_with_path = example_env\<lparr>NEXT_PUBLIC_VALYU_AUTH_URL := Some ''https://auth.valyu.ai/oauth''\<rparr>"

definition example_env_no_scheme :: oauth_env where
  "example_env_no_scheme = example_env\<lparr>NEXT_PUBLIC_VALYU_AUTH_URL := Some ''auth.valyu.ai''\<rparr>"

definition example_env_unset :: oauth_env where
  "example_env_unset = example_env\<lparr>NEXT_PUBLIC_VALYU_CLIENT_ID := None\<rparr>"

definition example_proxy :: "research_call \<Rightarrow> (string + task_reply) fetch_result" where
  "example_proxy call = Resolved 200 (Inr \<lparr>reply_error = None, reply_deepresearch_id = Some ''abc123''\<rparr>)"

definition example_sdk :: "research_call \<Rightarrow> string + task_reply" where
  "example_sdk call = Inr \<lparr>reply_error = None, reply_deepresearch_id = Some ''abc123''\<rparr>"

definition example_fields :: post_fields where
  "example_fields =
     \<lparr>pf_supplementName = None, pf_researchFocus = Some ''sleep'', pf_currentSupplements = None,
      pf_healthGoals = None\<rparr>"

text \<open>
  The JSON body \<open>null\<close>: the destructuring of the handler throws a \<open>TypeError\<close>,
  here with the message that Node.js gives it.
\<close>

definition example_null_message :: string where
  "example_null_message =
     ''Cannot destructure property '' @ [CHR 0x27] @ ''supplementName'' @ [CHR 0x27] @ '' of '' @
     [CHR 0x27] @ ''(intermediate value)'' @ [CHR 0x27] @ '' as it is null.''"

definition example_null_body :: request_body where
  "example_null_body = BodyThrows example_null_message"

definition example_magnesium :: post_fields where
  "example_magnesium = example_fields\<lparr>pf_supplementName := Some ''Magnesium''\<rparr>"

section \<open>Properties\<close>

subsection \<open>Polling and cancellation\<close>

lemma stopPolling_fields:
  "analysisResult (stopPolling s) = analysisResult s"
  "isAnalyzing (stopPolling s) = isAnalyzing s"
  "currentTaskId (stopPolling s) = currentTaskId s"
  "isCancelling (stopPolling s) = isCancelling s"
  "cancelledRef (stopPolling s) = cancelledRef s"
  "supplementName (stopPolling s) = supplementName s"
  "researchFocus (stopPolling s) = researchFocus s"
  "localStorage (stopPolling s) = localStorage s"
  "user (stopPolling s) = user s"
  "console (stopPolling s) = console s"
  "showSignInModal (stopPolling s) = showSignInModal s"
  "nextTimer (stopPolling s) = nextTimer s"
  "pollIntervalRef (stopPolling s) = None"
  by (simp_all add: stopPolling_def clearInterval_def split: option.splits)

lemma map_of_filter_fst: "map_of (filter (\<lambda>t. fst t \<noteq> h) xs) h = None"
  by (induction xs) auto

lemma stopPolling_timer: "pollIntervalRef s = Some h \<Longrightarrow> map_of (timers (stopPolling s)) h = None"
  by (simp add: stopPolling_def clearInterval_def map_of_filter_fst)

lemma handleReset_idle: "idle (handleReset s)"
  by (simp add: idle_def isHomepage_def handleReset_def stopPolling_fields)

lemma handleReset_cancelled: "cancelledRef (handleReset s) = cancelledRef s"
  by (simp add: handleReset_def stopPolling_fields)

lemma receive_cancelled_snapshot:
  "cancelledRef s \<Longrightarrow> analysisResult (pollStatus_receive r s) = analysisResult s"
  by (simp add: pollStatus_receive_def stopPolling_fields split: fetch_result.splits)

lemma receive_cancelled_idle:
  "cancelledRef s \<Longrightarrow> idle s \<Longrightarrow> idle (pollStatus_receive r s)"
  by (simp add: pollStatus_receive_def stopPolling_fields idle_def isHomepage_def split: fetch_result.splits)

lemma receive_cancelled_flag:
  "cancelledRef s \<Longrightarrow> cancelledRef (pollStatus_receive r s)"
  by (simp add: pollStatus_receive_def stopPolling_fields split: fetch_result.splits)

lemma receive_cancelled_analyzing:
  "cancelledRef s \<Longrightarrow> isAnalyzing (pollStatus_receive r s) \<Longrightarrow> isAnalyzing s"
  by (simp add: pollStatus_receive_def stopPolling_fields split: fetch_result.splits if_splits)

lemma cancel_send_flag: "cancelledRef (snd (handleCancel_send sh s))"
  by (simp add: handleCancel_send_def Let_def handleReset_cancelled)

lemma cancel_receive_idle: "idle (handleCancel_receive c s)"
  by (simp add: handleCancel_receive_def handleReset_idle split: fetch_result.splits)

lemma cancel_receive_flag: "cancelledRef (handleCancel_receive c s) = cancelledRef s"
  by (simp add: handleCancel_receive_def handleReset_cancelled split: fetch_result.splits)

lemma cancel_send_none: "fst (handleCancel_send sh s) = None \<Longrightarrow> idle (snd (handleCancel_send sh s))"
  by (simp add: handleCancel_send_def Let_def handleReset_idle split: if_splits)

text \<open>
  What the cancellation flag does give, while it stays set. \<open>handleCancel\<close> sets
  \<open>cancelledRef\<close> in the synchronous part that ends by sending the cancel request,
  so a handler that runs next sees the flag: no further poll is sent, and the
  response \<open>r\<close> of a poll that was in flight is discarded (the snapshot is the
  one before it, and the response cannot turn \<open>isAnalyzing\<close> on). Whether the
  stale response arrives before or right after the cancel request ends with
  outcome \<open>c\<close>, the controller is idle then; when there was no task id, cancel
  has already reset and the stale response leaves it idle. Nothing is said here
  of a stale response that arrives after \<open>handleTaskCreated\<close> has run again.
\<close>

lemma stale_poll_discarded_while_cancelled:
  "cancelledRef (snd (handleCancel_send sh s))
   \<and> pollStatus_send sh t (snd (handleCancel_send sh s)) = None
   \<and> analysisResult (pollStatus_receive r (snd (handleCancel_send sh s)))
       = analysisResult (snd (handleCancel_send sh s))
   \<and> (isAnalyzing (pollStatus_receive r (snd (handleCancel_send sh s)))
        \<longrightarrow> isAnalyzing (snd (handleCancel_send sh s)))
   \<and> idle (handleCancel_receive c (pollStatus_receive r (snd (handleCancel_send sh s))))
   \<and> idle (pollStatus_receive r (handleCancel_receive c (snd (handleCancel_send sh s))))
   \<and> (fst (handleCancel_send sh s) = None
        \<longrightarrow> idle (pollStatus_receive r (snd (handleCancel_send sh s))))"
proof -
  let ?c = "snd (handleCancel_send sh s)"
  have flag: "cancelledRef ?c" by (rule cancel_send_flag)
  have 1: "pollStatus_send sh t ?c = None" using flag by (simp add: pollStatus_send_def)
  have 2: "analysisResult (pollStatus_receive r ?c) = analysisResult ?c"
    using flag by (rule receive_cancelled_snapshot)
  have 3: "isAnalyzing (pollStatus_receive r ?c) \<longrightarrow> isAnalyzing ?c"
    using flag receive_cancelled_analyzing by blast
  have 4: "idle (handleCancel_receive c (pollStatus_receive r ?c))" by (rule cancel_receive_idle)
  have "cancelledRef (handleCancel_receive c ?c)" using flag by (simp add: cancel_receive_flag)
  then have 5: "idle (pollStatus_receive r (handleCancel_receive c ?c))"
    by (rule receive_cancelled_idle) (rule cancel_receive_idle)
  have 6: "fst (handleCancel_send sh s) = None \<longrightarrow> idle (pollStatus_receive r ?c)"
    using flag receive_cancelled_idle cancel_send_none by blast
  from flag 1 2 3 4 5 6 show ?thesis by blast
qed

lemma example_polling_eq:
  "example_polling = initial_state\<lparr>isAnalyzing := True, currentTaskId := Some ''abc123'',
      timers := [(1, ''abc123'')], nextTimer := 1, pollIntervalRef := Some 1\<rparr>"
  by (simp add: example_polling_def handleTaskCreated_def setInterval_def initial_state_def Let_def)

text \<open>
  The same on a polling task cancelled while a \<open>running\<close> response is in flight,
  and on a cancel with no task id.
\<close>

lemma stale_poll_discarded_while_cancelled_example:
  "cancelledRef (snd (handleCancel_send True example_polling))
   \<and> isAnalyzing (pollStatus_receive (Resolved 200 example_running) (snd (handleCancel_send True example_polling)))
   \<and> isAnalyzing (snd (handleCancel_send True example_polling))
   \<and> analysisResult (pollStatus_receive (Resolved 200 example_running) (snd (handleCancel_send True example_polling))) = None
   \<and> idle (handleCancel_receive (Resolved 200 ())
        (pollStatus_receive (Resolved 200 example_running) (snd (handleCancel_send True example_polling))))
   \<and> idle (pollStatus_receive (Resolved 200 example_running)
        (handleCancel_receive (Resolved 200 ()) (snd (handleCancel_send True example_polling))))
   \<and> fst (handleCancel_send True initial_state) = None
   \<and> idle (pollStatus_receive (Resolved 200 example_running) (snd (handleCancel_send True initial_state)))"
proof -
  have c: "snd (handleCancel_send True example_polling)
      = example_polling\<lparr>cancelledRef := True, isCancelling := True\<rparr>"
    by (simp add: example_polling_eq handleCancel_send_def initial_state_def Let_def)
  have h1: "isAnalyzing (pollStatus_receive (Resolved 200 example_running)
      (snd (handleCancel_send True example_polling)))"
    unfolding c by (simp add: pollStatus_receive_def response_ok_def example_polling_eq)
  have h2: "analysisResult (snd (handleCancel_send True example_polling)) = None"
    unfolding c by (simp add: example_polling_eq initial_state_def)
  have h3: "fst (handleCancel_send True initial_state) = None"
    by (simp add: handleCancel_send_def initial_state_def)
  from h1 h2 h3
    stale_poll_discarded_while_cancelled [of True example_polling "''abc123''"
      "Resolved 200 example_running" "Resolved 200 ()"]
    stale_poll_discarded_while_cancelled [of True initial_state "''abc123''"
      "Resolved 200 example_running" "Resolved 200 ()"]
  show ?thesis by simp
qed

text \<open>
  Claim C1, on the code. The flag that \<open>handleCancel\<close> sets is one flag of the
  component, and \<open>handleTaskCreated\<close> clears it. A task \<open>abc123\<close> is created (its
  first poll is sent) and cancelled while that poll is in flight; the cancel
  request ends, the controller is idle and the flag is set. The user then
  starts a task \<open>task-B\<close>, which clears the flag. When the response of the poll
  of \<open>abc123\<close> arrives now, it is not discarded: as a \<open>running\<close> response it
  becomes the exposed snapshot of the page that polls \<open>task-B\<close>; as a
  \<open>cancelled\<close> response it also clears the timer of \<open>task-B\<close> and ends the
  analysis.
\<close>

theorem stale_poll_applied_after_new_task:
  "fst (handleTaskCreated True ''abc123'' initial_state) \<noteq> None
   \<and> cancelledRef (snd (handleCancel_send True example_polling))
   \<and> idle (handleCancel True (\<lambda>req. Resolved 200 ()) example_polling)
   \<and> cancelledRef (handleCancel True (\<lambda>req. Resolved 200 ()) example_polling)
   \<and> \<not> cancelledRef example_restarted
   \<and> currentTaskId example_restarted = Some ''task-B''
   \<and> analysisResult example_restarted = None
   \<and> deepresearch_id example_running = ''abc123''
   \<and> analysisResult (pollStatus_receive (Resolved 200 example_running) example_restarted)
       = Some example_running
   \<and> pollIntervalRef example_restarted = Some 2
   \<and> map_of (timers example_restarted) 2 = Some ''task-B''
   \<and> map_of (timers (pollStatus_receive (Resolved 200 example_cancelled) example_restarted)) 2 = None
   \<and> \<not> isAnalyzing (pollStatus_receive (Resolved 200 example_cancelled) example_restarted)"
proof -
  have c: "handleCancel True (\<lambda>req. Resolved 200 ()) example_polling
      = initial_state\<lparr>cancelledRef := True, nextTimer := 1\<rparr>"
    by (simp add: handleCancel_def handleCancel_send_def handleCancel_receive_def handleReset_def
        stopPolling_def clearInterval_def example_polling_eq initial_state_def Let_def)
  have r: "example_restarted
      = initial_state\<lparr>isAnalyzing := True, currentTaskId := Some ''task-B'',
          timers := [(2, ''task-B'')], nextTimer := 2, pollIntervalRef := Some 2\<rparr>"
    by (simp add: example_restarted_def c handleTaskCreated_def setInterval_def initial_state_def
        Let_def)
  show ?thesis
    by (simp add: r c cancel_send_flag idle_def isHomepage_def initial_state_def
        handleTaskCreated_def pollStatus_send_def setInterval_def Let_def
        pollStatus_receive_def response_ok_def is_terminal_def stopPolling_def clearInterval_def
        example_running_def example_cancelled_def)
qed


lemma timer_tick_stopped:
  "pollIntervalRef s = Some h \<Longrightarrow> timer_tick sh h (stopPolling s) = None"
  by (simp add: timer_tick_def stopPolling_timer)






lemma receive_auth_required:
  assumes "\<not> response_ok code" and "error d = Some ''AUTH_REQUIRED''"
  shows "pollStatus_receive (Resolved code d) s =
     (stopPolling (s\<lparr>localStorage :=
          removeItem (removeItem (localStorage s) ''valyu_access_token'') ''valyu_user'',
        user := None, showSignInModal := True\<rparr>))\<lparr>isAnalyzing := False\<rparr>"
  using assms by (simp add: pollStatus_receive_def)

text \<open>
  Claim C3. When a status check answers with an error status and the body
  \<open>error: AUTH_REQUIRED\<close>, the one transition that handles the response removes the
  stored access token and the stored user profile together (every other key of
  \<open>localStorage\<close> keeps its value), drops the user, opens the sign-in modal and
  stops the poll timer: \<open>pollIntervalRef\<close> is cleared and the timer \<open>h\<close> it held
  sends no further poll. The snapshot is not changed.
\<close>

theorem auth_required_clears_session:
  assumes "\<not> response_ok code" and "error d = Some ''AUTH_REQUIRED''"
  shows "getItem (localStorage (pollStatus_receive (Resolved code d) s)) ''valyu_access_token'' = None
   \<and> getItem (localStorage (pollStatus_receive (Resolved code d) s)) ''valyu_user'' = None
   \<and> (\<forall>k. k \<noteq> ''valyu_access_token'' \<and> k \<noteq> ''valyu_user'' \<longrightarrow>
         getItem (localStorage (pollStatus_receive (Resolved code d) s)) k = getItem (localStorage s) k)
   \<and> user (pollStatus_receive (Resolved code d) s) = None
   \<and> showSignInModal (pollStatus_receive (Resolved code d) s)
   \<and> \<not> isAnalyzing (pollStatus_receive (Resolved code d) s)
   \<and> analysisResult (pollStatus_receive (Resolved code d) s) = analysisResult s
   \<and> pollIntervalRef (pollStatus_receive (Resolved code d) s) = None
   \<and> (\<forall>h. pollIntervalRef s = Some h \<longrightarrow>
         timer_tick sh h (pollStatus_receive (Resolved code d) s) = None)"
proof -
  let ?s1 = "s\<lparr>localStorage :=
          removeItem (removeItem (localStorage s) ''valyu_access_token'') ''valyu_user'',
        user := None, showSignInModal := True\<rparr>"
  have eq: "pollStatus_receive (Resolved code d) s = (stopPolling ?s1)\<lparr>isAnalyzing := False\<rparr>"
    using assms by (rule receive_auth_required)
  have tick: "timer_tick sh h ((stopPolling ?s1)\<lparr>isAnalyzing := False\<rparr>) = None"
    if "pollIntervalRef s = Some h" for h
    using stopPolling_timer [of ?s1 h] that by (simp add: timer_tick_def)
  show ?thesis
    unfolding eq using tick by (simp add: stopPolling_fields getItem_def removeItem_def)
qed

text \<open>Witness for C3: a 401 with \<open>AUTH_REQUIRED\<close> on a signed-in, polling page.\<close>

theorem auth_required_clears_session_witness:
  "\<not> response_ok 401 \<and> error example_auth_required = Some ''AUTH_REQUIRED''
   \<and> getItem (localStorage example_signed_in) ''valyu_access_token'' = Some ''token-1''
   \<and> getItem (localStorage (pollStatus_receive (Resolved 401 example_auth_required) example_signed_in))
        ''valyu_access_token'' = None
   \<and> getItem (localStorage (pollStatus_receive (Resolved 401 example_auth_required) example_signed_in))
        ''valyu_user'' = None
   \<and> getItem (localStorage (pollStatus_receive (Resolved 401 example_auth_required) example_signed_in))
        ''oauth_form_values'' = Some ''{}''
   \<and> pollIntervalRef example_signed_in = Some 1
   \<and> pollIntervalRef (pollStatus_receive (Resolved 401 example_auth_required) example_signed_in) = None
   \<and> timer_tick True 1 (pollStatus_receive (Resolved 401 example_auth_required) example_signed_in) = None"
proof -
  have h1: "\<not> response_ok 401" by (simp add: response_ok_def)
  have h2: "error example_auth_required = Some ''AUTH_REQUIRED''"
    by (simp add: example_auth_required_def)
  have h3: "pollIntervalRef example_signed_in = Some 1"
    by (simp add: example_signed_in_def example_polling_eq)
  have h4: "getItem (localStorage example_signed_in) ''valyu_access_token'' = Some ''token-1''"
    "getItem (localStorage example_signed_in) ''oauth_form_values'' = Some ''{}''"
    by (simp_all add: example_signed_in_def getItem_def)
  have h5: "''oauth_form_values'' \<noteq> ''valyu_access_token'' \<and> ''oauth_form_values'' \<noteq> ''valyu_user''"
    by simp
  from auth_required_clears_session [OF h1 h2, of example_signed_in True] h1 h2 h3 h4 h5
  show ?thesis by simp
qed

lemma handleReset_fields:
  "analysisResult (handleReset s) = None"
  "\<not> isAnalyzing (handleReset s)"
  "currentTaskId (handleReset s) = None"
  "\<not> isCancelling (handleReset s)"
  "supplementName (handleReset s) = []"
  "researchFocus (handleReset s) = []"
  "pollIntervalRef (handleReset s) = None"
  by (simp_all add: handleReset_def stopPolling_fields)

lemma handleReset_timer:
  "pollIntervalRef s = Some h \<Longrightarrow> map_of (timers (handleReset s)) h = None"
  using stopPolling_timer [of s h] by (simp add: handleReset_def)

lemma handleReset_console:
  "handleReset (s\<lparr>console := c\<rparr>) = (handleReset s)\<lparr>console := c\<rparr>"
  by (simp add: handleReset_def stopPolling_def clearInterval_def split: option.splits)

lemma handleCancel_receive_eq:
  "handleCancel_receive r s = (handleReset s)\<lparr>console := console (handleCancel_receive r s)\<rparr>"
  by (cases r) (simp_all add: handleCancel_receive_def handleReset_console)

lemma handleCancel_idle: "idle (handleCancel sh net s)"
  by (simp add: handleCancel_def handleCancel_send_def Let_def handleReset_idle cancel_receive_idle)

lemma handleCancel_form:
  "supplementName (handleCancel sh net s) = [] \<and> researchFocus (handleCancel sh net s) = []"
  by (simp add: handleCancel_def handleCancel_send_def handleCancel_receive_def Let_def
      handleReset_fields split: fetch_result.splits)

lemma handleCancel_timer:
  "pollIntervalRef s = Some h \<Longrightarrow> timer_tick sh h (handleCancel sh net s) = None"
  by (simp add: handleCancel_def handleCancel_send_def handleCancel_receive_def Let_def
      timer_tick_def handleReset_timer split: fetch_result.splits)

lemma handleReset_timers:
  "pollIntervalRef s = Some h \<Longrightarrow> timers (handleReset s) = filter (\<lambda>t. fst t \<noteq> h) (timers s)"
  by (simp add: handleReset_def stopPolling_def clearInterval_def)

lemma handleCancel_receive_timers:
  "pollIntervalRef s = Some h \<Longrightarrow>
   timers (handleCancel_receive r s) = filter (\<lambda>t. fst t \<noteq> h) (timers s)"
  by (cases r) (simp_all add: handleCancel_receive_def handleReset_timers)

lemma handleCancel_timers:
  "pollIntervalRef s = Some h \<Longrightarrow>
   timers (handleCancel sh net s) = filter (\<lambda>t. fst t \<noteq> h) (timers s)"
  by (simp add: handleCancel_def handleCancel_send_def Let_def handleReset_timers
      handleCancel_receive_timers)

text \<open>
  Claim C4. Whatever the cancel request does (\<open>net\<close> may resolve with any status
  or reject), \<open>handleCancel\<close> ends with the controller idle, the snapshot and the
  task id cleared, both form inputs empty, and the timer cleared: the reference
  is \<open>null\<close>, and the timer \<open>h\<close> that was referenced is no longer among the running
  timers (exactly its entry is removed), so it sends no further poll. The part
  that runs after the request, from any state \<open>s'\<close> and on any outcome \<open>r\<close>, is
  \<open>handleReset\<close>: only the console can tell a failure, and the timer referenced
  in \<open>s'\<close> is removed.
\<close>

theorem cancel_always_cleans_up:
  "idle (handleCancel sh net s)
   \<and> analysisResult (handleCancel sh net s) = None
   \<and> currentTaskId (handleCancel sh net s) = None
   \<and> supplementName (handleCancel sh net s) = []
   \<and> researchFocus (handleCancel sh net s) = []
   \<and> pollIntervalRef (handleCancel sh net s) = None
   \<and> (\<forall>h. pollIntervalRef s = Some h \<longrightarrow>
          map_of (timers (handleCancel sh net s)) h = None
          \<and> timers (handleCancel sh net s) = filter (\<lambda>t. fst t \<noteq> h) (timers s)
          \<and> timer_tick sh h (handleCancel sh net s) = None)
   \<and> handleCancel_receive r s' = (handleReset s')\<lparr>console := console (handleCancel_receive r s')\<rparr>
   \<and> idle (handleCancel_receive r s')
   \<and> (\<forall>h. pollIntervalRef s' = Some h \<longrightarrow>
          map_of (timers (handleCancel_receive r s')) h = None)"
proof -
  have i: "idle (handleCancel sh net s)" by (rule handleCancel_idle)
  then have f: "analysisResult (handleCancel sh net s) = None"
    "currentTaskId (handleCancel sh net s) = None"
    "pollIntervalRef (handleCancel sh net s) = None"
    by (simp_all add: idle_def isHomepage_def)
  have t1: "\<forall>h. pollIntervalRef s = Some h \<longrightarrow>
          map_of (timers (handleCancel sh net s)) h = None
          \<and> timers (handleCancel sh net s) = filter (\<lambda>t. fst t \<noteq> h) (timers s)
          \<and> timer_tick sh h (handleCancel sh net s) = None"
    by (simp add: handleCancel_timers map_of_filter_fst handleCancel_timer)
  have e: "handleCancel_receive r s' = (handleReset s')\<lparr>console := console (handleCancel_receive r s')\<rparr>"
    by (rule handleCancel_receive_eq)
  have t2: "\<forall>h. pollIntervalRef s' = Some h \<longrightarrow>
          map_of (timers (handleCancel_receive r s')) h = None"
    by (simp add: handleCancel_receive_timers map_of_filter_fst)
  from i f t1 e t2 handleCancel_form [of sh net s] cancel_receive_idle [of r s']
  show ?thesis by blast
qed

text \<open>
  Witness for C4: a polling task, whose one running timer is the referenced
  one, cancelled with a network failure, an upstream error and a success; no
  timer is left running.
\<close>

theorem cancel_always_cleans_up_witness:
  "pollIntervalRef example_polling = Some 1
   \<and> timers example_polling = [(1, ''abc123'')]
   \<and> idle (handleCancel True (\<lambda>req. Rejected ''Failed to fetch'') example_polling)
   \<and> idle (handleCancel True (\<lambda>req. Resolved 500 ()) example_polling)
   \<and> idle (handleCancel True (\<lambda>req. Resolved 200 ()) example_polling)
   \<and> timers (handleCancel True (\<lambda>req. Rejected ''Failed to fetch'') example_polling) = []
   \<and> timers (handleCancel True (\<lambda>req. Resolved 500 ()) example_polling) = []
   \<and> timers (handleCancel True (\<lambda>req. Resolved 200 ()) example_polling) = []
   \<and> timer_tick True 1 (handleCancel True (\<lambda>req. Rejected ''Failed to fetch'') example_polling) = None
   \<and> timer_tick True 1 (handleCancel True (\<lambda>req. Resolved 500 ()) example_polling) = None
   \<and> timer_tick True 1 (handleCancel True (\<lambda>req. Resolved 200 ()) example_polling) = None"
proof -
  have h: "pollIntervalRef example_polling = Some 1" "timers example_polling = [(1, ''abc123'')]"
    by (simp_all add: example_polling_eq)
  from h
    cancel_always_cleans_up [of True "\<lambda>req. Rejected ''Failed to fetch''" example_polling]
    cancel_always_cleans_up [of True "\<lambda>req. Resolved 500 ()" example_polling]
    cancel_always_cleans_up [of True "\<lambda>req. Resolved 200 ()" example_polling]
  show ?thesis by simp
qed

subsection \<open>The code challenge\<close>

lemma replace_all_append: "replace_all c r (xs @ ys) = replace_all c r xs @ replace_all c r ys"
  by (simp add: replace_all_def)

lemma url_safe_append: "url_safe (xs @ ys) = url_safe xs @ url_safe ys"
  by (simp add: url_safe_def replace_all_append)

lemma url_safe_Nil: "url_safe [] = []"
  by (simp add: url_safe_def replace_all_def)

lemma url_safe_Cons: "url_safe (x # xs) = url_safe [x] @ url_safe xs"
  using url_safe_append [of "[x]" xs] by simp

lemma url_safe_pad: "url_safe [CHR ''=''] = []"
  by (simp add: url_safe_def replace_all_def)

lemma digits_table:
  "list_all (\<lambda>n. url_safe [base64_digit n] = [base64url_digit n]) [0..<64]"
  by code_simp

lemma url_safe_digit: "n < 64 \<Longrightarrow> url_safe [base64_digit n] = [base64url_digit n]"
  using digits_table by (simp add: list_all_iff)

lemma url_safe_digit_Cons:
  "n < 64 \<Longrightarrow> url_safe (base64_digit n # xs) = base64url_digit n # url_safe xs"
  using url_safe_Cons [of "base64_digit n" xs] by (simp add: url_safe_digit)

lemma url_safe_pad_Cons: "url_safe (CHR ''='' # xs) = url_safe xs"
  using url_safe_Cons [of "CHR ''=''" xs] by (simp add: url_safe_pad)

lemma byte_bounds:
  fixes a b c :: byte
  shows "unat a div 4 < 64" "unat a mod 4 * 16 < 64" "unat a mod 4 * 16 + unat b div 16 < 64"
    "unat b mod 16 * 4 < 64" "unat b mod 16 * 4 + unat c div 64 < 64" "unat c mod 64 < 64"
proof -
  have a: "unat a < 256" "unat b < 256" "unat c < 256"
    using unsigned_less [of a] unsigned_less [of b] unsigned_less [of c] by simp_all
  show "unat a div 4 < 64" using a by simp
  show "unat a mod 4 * 16 < 64" by (simp add: less_le_trans [OF mod_less_divisor])
  have "unat a mod 4 \<le> 3" by (simp add: Suc_leI le_simps)
  moreover have "unat b div 16 \<le> 15" using a by simp
  ultimately show "unat a mod 4 * 16 + unat b div 16 < 64" by simp
  have b: "unat b mod 16 \<le> 15" by (simp add: le_simps)
  then show "unat b mod 16 * 4 < 64" by simp
  have "unat c div 64 \<le> 3" using a by simp
  with b show "unat b mod 16 * 4 + unat c div 64 < 64" by simp
  show "unat c mod 64 < 64" by simp
qed

lemma base64URLEncode_url_safe: "base64URLEncode bs = url_safe (btoa bs)"
  by (simp add: base64URLEncode_def url_safe_def)

lemma base64URLEncode_refines: "base64URLEncode bs = base64url_unpadded bs"
  unfolding base64URLEncode_url_safe
proof (induction bs rule: btoa.induct)
  case 1
  show ?case by (simp add: url_safe_Nil)
next
  case (2 a)
  show ?case
    by (simp add: url_safe_digit_Cons url_safe_pad_Cons url_safe_Nil byte_bounds)
next
  case (3 a b)
  show ?case
    by (simp add: url_safe_digit_Cons url_safe_pad_Cons url_safe_Nil byte_bounds)
next
  case (4 a b c rest)
  then show ?case
    by (simp add: url_safe_digit_Cons byte_bounds)
qed

subsection \<open>OAuth with PKCE\<close>

text \<open>
  Claim C6. \<open>generateCodeChallenge\<close> reads nothing but its argument, so it is a
  function of the verifier. Its value is the unpadded base64url encoding of the
  SHA-256 hash of the verifier's bytes: replacing \<open>+\<close> and \<open>/\<close> and deleting \<open>=\<close>
  in the padded base64 text gives exactly the text in the URL-safe alphabet. On
  the verifier of RFC 7636, appendix B, it returns the challenge given there.
\<close>

theorem code_challenge_is_base64url_sha256:
  "generateCodeChallenge v = base64url_unpadded (sha256 (TextEncoder_encode v))
   \<and> generateCodeChallenge ''dBjftJeZ4CVP-mB92K27uhbUJU1p1r_wW1gFWFOEjXk''
       = ''E9Melhoa2OwvFrEMTJguCHaoeK1t8URWbuGJSstw-cM''"
proof
  show "generateCodeChallenge v = base64url_unpadded (sha256 (TextEncoder_encode v))"
    by (simp add: generateCodeChallenge_def base64URLEncode_refines)
  show "generateCodeChallenge ''dBjftJeZ4CVP-mB92K27uhbUJU1p1r_wW1gFWFOEjXk''
       = ''E9Melhoa2OwvFrEMTJguCHaoeK1t8URWbuGJSstw-cM''"
    by code_simp
qed

text \<open>The model of SHA-256 on the one-block test message of FIPS 180-4.\<close>

lemma sha256_abc:
  "sha256 (TextEncoder_encode ''abc'') =
     [0xba, 0x78, 0x16, 0xbf, 0x8f, 0x01, 0xcf, 0xea, 0x41, 0x41, 0x40, 0xde, 0x5d, 0xae, 0x22, 0x23,
      0xb0, 0x03, 0x61, 0xa3, 0x96, 0x17, 0x7a, 0x9c, 0xb4, 0x10, 0xff, 0x61, 0xf2, 0x00, 0x15, 0xad]"
  by code_simp

lemma restore_removes:
  "getItem (localStorage b) OAUTH_FORM_VALUES_KEY = Some s \<Longrightarrow> s \<noteq> [] \<Longrightarrow>
   getItem (localStorage (snd (restoreFormValuesAfterOAuth parse b))) OAUTH_FORM_VALUES_KEY = None"
  by (simp add: restoreFormValuesAfterOAuth_def getItem_def removeItem_def Let_def
      split: json_result.splits)

lemma restore_falsy:
  "\<not> truthy (getItem (localStorage b) OAUTH_FORM_VALUES_KEY) \<Longrightarrow>
   restoreFormValuesAfterOAuth parse b = (None, b)"
  by (simp add: restoreFormValuesAfterOAuth_def Let_def)

lemma restore_truthy:
  "getItem (localStorage b) OAUTH_FORM_VALUES_KEY = Some s \<Longrightarrow> s \<noteq> [] \<Longrightarrow>
   fst (restoreFormValuesAfterOAuth parse b) = (case parse s of Parsed v \<Rightarrow> v | SyntaxError \<Rightarrow> None)"
  by (simp add: restoreFormValuesAfterOAuth_def Let_def split: json_result.splits)

lemma restore_twice_null:
  "fst (restoreFormValuesAfterOAuth parse' (snd (restoreFormValuesAfterOAuth parse b))) = None"
proof (cases "truthy (getItem (localStorage b) OAUTH_FORM_VALUES_KEY)")
  case False
  then show ?thesis by (simp add: restore_falsy)
next
  case True
  then obtain s where s: "getItem (localStorage b) OAUTH_FORM_VALUES_KEY = Some s" "s \<noteq> []"
    by (cases "getItem (localStorage b) OAUTH_FORM_VALUES_KEY") auto
  then have "\<not> truthy (getItem (localStorage (snd (restoreFormValuesAfterOAuth parse b))) OAUTH_FORM_VALUES_KEY)"
    by (simp add: restore_removes)
  then show ?thesis by (simp add: restore_falsy)
qed

lemma save_stored:
  "getItem (localStorage (saveFormValuesBeforeOAuth stringify v b)) OAUTH_FORM_VALUES_KEY = Some (stringify v)"
  by (simp add: saveFormValuesBeforeOAuth_def getItem_def setItem_def)

text \<open>
  Claim C5. \<open>restoreFormValuesAfterOAuth\<close> is one step from the browser to a
  result and the browser it leaves. Called a second time on what the first call
  left, it returns \<open>null\<close>, whatever was stored. It returns \<open>null\<close> and changes
  nothing when no values are stored. After \<open>saveFormValuesBeforeOAuth\<close> of values
  \<open>v\<close> that the platform's JSON codec writes as a non-empty text and reads back
  as \<open>v\<close>, the first call returns \<open>v\<close> and leaves no stored values.
\<close>

theorem restore_delivers_at_most_once:
  "fst (restoreFormValuesAfterOAuth parse (snd (restoreFormValuesAfterOAuth parse b))) = None
   \<and> (getItem (localStorage b) OAUTH_FORM_VALUES_KEY = None \<longrightarrow>
        restoreFormValuesAfterOAuth parse b = (None, b))
   \<and> (stringify v \<noteq> [] \<and> parse (stringify v) = Parsed (Some v) \<longrightarrow>
        fst (restoreFormValuesAfterOAuth parse (saveFormValuesBeforeOAuth stringify v b)) = Some v
        \<and> getItem (localStorage (snd (restoreFormValuesAfterOAuth parse
             (saveFormValuesBeforeOAuth stringify v b)))) OAUTH_FORM_VALUES_KEY = None)"
proof (intro conjI impI)
  show "fst (restoreFormValuesAfterOAuth parse (snd (restoreFormValuesAfterOAuth parse b))) = None"
    by (rule restore_twice_null)
next
  assume "getItem (localStorage b) OAUTH_FORM_VALUES_KEY = None"
  then show "restoreFormValuesAfterOAuth parse b = (None, b)"
    by (simp add: restore_falsy)
next
  assume a: "stringify v \<noteq> [] \<and> parse (stringify v) = Parsed (Some v)"
  let ?b = "saveFormValuesBeforeOAuth stringify v b"
  have s: "getItem (localStorage ?b) OAUTH_FORM_VALUES_KEY = Some (stringify v)"
    by (rule save_stored)
  from a show "fst (restoreFormValuesAfterOAuth parse ?b) = Some v"
    using restore_truthy [OF s, of parse] by simp
  from a show "getItem (localStorage (snd (restoreFormValuesAfterOAuth parse ?b))) OAUTH_FORM_VALUES_KEY = None"
    using restore_removes [OF s, of parse] by simp
qed

lemma example_json_nonempty: "example_json \<noteq> []"
  by (simp add: example_json_def)

text \<open>
  Witness for C5: values saved, restored twice; and a browser with nothing
  stored.
\<close>

theorem restore_delivers_at_most_once_witness:
  "example_stringify example_values \<noteq> []
   \<and> example_parse (example_stringify example_values) = Parsed (Some example_values)
   \<and> fst (restoreFormValuesAfterOAuth example_parse
        (saveFormValuesBeforeOAuth example_stringify example_values example_browser)) = Some example_values
   \<and> fst (restoreFormValuesAfterOAuth example_parse (snd (restoreFormValuesAfterOAuth example_parse
        (saveFormValuesBeforeOAuth example_stringify example_values example_browser)))) = None
   \<and> getItem (localStorage example_browser) OAUTH_FORM_VALUES_KEY = None
   \<and> restoreFormValuesAfterOAuth example_parse example_browser = (None, example_browser)"
proof -
  have h1: "example_stringify example_values \<noteq> []"
    by (simp add: example_stringify_def example_json_nonempty)
  have h2: "example_parse (example_stringify example_values) = Parsed (Some example_values)"
    by (simp add: example_stringify_def example_parse_def)
  have h3: "getItem (localStorage example_browser) OAUTH_FORM_VALUES_KEY = None"
    by (simp add: example_browser_def getItem_def)
  from h1 h2 h3
    restore_delivers_at_most_once [of example_parse
      "saveFormValuesBeforeOAuth example_stringify example_values example_browser"
      example_stringify example_values]
    restore_delivers_at_most_once [of example_parse example_browser example_stringify example_values]
  show ?thesis by simp
qed

lemma flow_unconfigured:
  "\<not> isOAuthConfigured env \<Longrightarrow>
   initiateOAuthFlow origin_of stringify env r1 r2 fv b = (Returned, b\<lparr>console := console b @ [OAUTH_WARNING]\<rparr>)"
  by (simp add: initiateOAuthFlow_def)

lemma flow_redirects:
  assumes "isOAuthConfigured env" and "origin_of (the (NEXT_PUBLIC_VALYU_AUTH_URL env)) = Some org"
  shows "fst (initiateOAuthFlow origin_of stringify env r1 r2 fv b) = Returned"
    and "location_href (snd (initiateOAuthFlow origin_of stringify env r1 r2 fv b)) =
      Some \<lparr>url_origin = org, pathname = ''/auth/v1/oauth/authorize'',
            searchParams =
              [(''client_id'', the (NEXT_PUBLIC_VALYU_CLIENT_ID env)),
               (''redirect_uri'', the (NEXT_PUBLIC_REDIRECT_URI env)),
               (''response_type'', ''code''),
               (''scope'', ''openid profile email''),
               (''code_challenge'', generateCodeChallenge (generateCodeVerifier r1)),
               (''code_challenge_method'', ''S256''),
               (''state'', generateCodeVerifier r2)]\<rparr>"
  using assms by (simp_all add: initiateOAuthFlow_def new_URL_def searchParams_append_def Let_def)

lemma flow_throws:
  assumes "isOAuthConfigured env" and "origin_of (the (NEXT_PUBLIC_VALYU_AUTH_URL env)) = None"
  shows "fst (initiateOAuthFlow origin_of stringify env r1 r2 fv b) = Thrown ''TypeError: Invalid URL''"
    and "location_href (snd (initiateOAuthFlow origin_of stringify env r1 r2 fv b)) = location_href b"
  using assms
  by (simp_all add: initiateOAuthFlow_def new_URL_def Let_def saveFormValuesBeforeOAuth_def
      split: option.splits)

text \<open>
  Claim C7, amended. With all three configuration values set and non-empty and
  an authorization URL that the platform parses, with origin \<open>org\<close>,
  \<open>initiateOAuthFlow\<close> returns after assigning to \<open>window.location.href\<close> the URL of
  origin \<open>org\<close> and path \<open>/auth/v1/oauth/authorize\<close> whose query is exactly the seven
  parameters \<open>client_id\<close>, \<open>redirect_uri\<close>, \<open>response_type=code\<close>,
  \<open>scope=openid profile email\<close>, \<open>code_challenge\<close>, \<open>code_challenge_method=S256\<close> and
  \<open>state\<close>, in this order. That is \<open>{auth_url}/auth/v1/oauth/authorize\<close> when the
  authorization URL is its own origin. When the authorization URL does not
  parse, the flow throws and does not redirect. When a configuration value is
  unset or empty, the flow only logs the warning.
\<close>

theorem oauth_redirect_target:
  "(isOAuthConfigured env \<and> origin_of (the (NEXT_PUBLIC_VALYU_AUTH_URL env)) = Some org \<longrightarrow>
      fst (initiateOAuthFlow origin_of stringify env r1 r2 fv b) = Returned
      \<and> location_href (snd (initiateOAuthFlow origin_of stringify env r1 r2 fv b)) =
          Some \<lparr>url_origin = org, pathname = ''/auth/v1/oauth/authorize'',
            searchParams =
              [(''client_id'', the (NEXT_PUBLIC_VALYU_CLIENT_ID env)),
               (''redirect_uri'', the (NEXT_PUBLIC_REDIRECT_URI env)),
               (''response_type'', ''code''),
               (''scope'', ''openid profile email''),
               (''code_challenge'', generateCodeChallenge (generateCodeVerifier r1)),
               (''code_challenge_method'', ''S256''),
               (''state'', generateCodeVerifier r2)]\<rparr>)
   \<and> (isOAuthConfigured env \<and> origin_of (the (NEXT_PUBLIC_VALYU_AUTH_URL env)) = None \<longrightarrow>
      fst (initiateOAuthFlow origin_of stringify env r1 r2 fv b) = Thrown ''TypeError: Invalid URL''
      \<and> location_href (snd (initiateOAuthFlow origin_of stringify env r1 r2 fv b)) = location_href b)
   \<and> (\<not> isOAuthConfigured env \<longrightarrow>
      initiateOAuthFlow origin_of stringify env r1 r2 fv b =
        (Returned, b\<lparr>console := console b @ [OAUTH_WARNING]\<rparr>))"
  using flow_redirects [of env origin_of org stringify r1 r2 fv b]
    flow_throws [of env origin_of stringify r1 r2 fv b]
    flow_unconfigured [of env origin_of stringify r1 r2 fv b]
  by blast

lemma example_configured:
  "isOAuthConfigured example_env" "isOAuthConfigured example_env_with_path"
  "isOAuthConfigured example_env_no_scheme" "\<not> isOAuthConfigured example_env_unset"
  by (simp_all add: isOAuthConfigured_def example_env_def example_env_with_path_def
      example_env_no_scheme_def example_env_unset_def)

lemma example_origins:
  "example_origin_of ''https://auth.valyu.ai'' = Some ''https://auth.valyu.ai''"
  "example_origin_of ''https://auth.valyu.ai/oauth'' = Some ''https://auth.valyu.ai''"
  "example_origin_of ''auth.valyu.ai'' = None"
  by (simp_all add: example_origin_of_def)

text \<open>
  Witness for C7: the documented configuration, an authorization URL without a
  scheme, and a configuration without client id.
\<close>

theorem oauth_redirect_target_witness:
  "isOAuthConfigured example_env
   \<and> example_origin_of (the (NEXT_PUBLIC_VALYU_AUTH_URL example_env)) = Some ''https://auth.valyu.ai''
   \<and> location_href (snd (initiateOAuthFlow example_origin_of example_stringify example_env
        example_random1 example_random2 (Some example_values) example_browser)) =
      Some \<lparr>url_origin = ''https://auth.valyu.ai'', pathname = ''/auth/v1/oauth/authorize'',
            searchParams =
              [(''client_id'', ''client-123''),
               (''redirect_uri'', ''http://localhost:3000/auth/valyu/callback''),
               (''response_type'', ''code''),
               (''scope'', ''openid profile email''),
               (''code_challenge'', generateCodeChallenge (generateCodeVerifier example_random1)),
               (''code_challenge_method'', ''S256''),
               (''state'', generateCodeVerifier example_random2)]\<rparr>
   \<and> isOAuthConfigured example_env_no_scheme
   \<and> example_origin_of (the (NEXT_PUBLIC_VALYU_AUTH_URL example_env_no_scheme)) = None
   \<and> fst (initiateOAuthFlow example_origin_of example_stringify example_env_no_scheme
        example_random1 example_random2 (Some example_values) example_browser) = Thrown ''TypeError: Invalid URL''
   \<and> \<not> isOAuthConfigured example_env_unset
   \<and> initiateOAuthFlow example_origin_of example_stringify example_env_unset
        example_random1 example_random2 (Some example_values) example_browser =
       (Returned, example_browser\<lparr>console := [OAUTH_WARNING]\<rparr>)"
proof -
  have h1: "example_origin_of (the (NEXT_PUBLIC_VALYU_AUTH_URL example_env)) = Some ''https://auth.valyu.ai''"
    by (simp add: example_env_def example_origins)
  have h2: "example_origin_of (the (NEXT_PUBLIC_VALYU_AUTH_URL example_env_no_scheme)) = None"
    by (simp add: example_env_no_scheme_def example_origins)
  have v: "the (NEXT_PUBLIC_VALYU_CLIENT_ID example_env) = ''client-123''"
    "the (NEXT_PUBLIC_REDIRECT_URI example_env) = ''http://localhost:3000/auth/valyu/callback''"
    "console example_browser = []"
    by (simp_all add: example_env_def example_browser_def)
  from h1 h2 v example_configured
    oauth_redirect_target [of example_env example_origin_of "''https://auth.valyu.ai''"
      example_stringify example_random1 example_random2 "Some example_values" example_browser]
    oauth_redirect_target [of example_env_no_scheme example_origin_of "''https://auth.valyu.ai''"
      example_stringify example_random1 example_random2 "Some example_values" example_browser]
    oauth_redirect_target [of example_env_unset example_origin_of "''https://auth.valyu.ai''"
      example_stringify example_random1 example_random2 "Some example_values" example_browser]
  show ?thesis by simp
qed

text \<open>
  Counterexample to C7 as stated. With the authorization URL
  \<open>https://auth.valyu.ai/oauth\<close>, the configuration is present and the browser is
  sent to \<open>https://auth.valyu.ai/auth/v1/oauth/authorize\<close>: the path of the
  authorization URL is replaced, so the target is not
  \<open>{auth_url}/auth/v1/oauth/authorize\<close>.
\<close>

theorem oauth_redirect_drops_auth_url_path:
  "isOAuthConfigured example_env_with_path
   \<and> the (NEXT_PUBLIC_VALYU_AUTH_URL example_env_with_path) @ ''/auth/v1/oauth/authorize''
       = ''https://auth.valyu.ai/oauth/auth/v1/oauth/authorize''
   \<and> location_href (snd (initiateOAuthFlow example_origin_of example_stringify example_env_with_path
        example_random1 example_random2 None example_browser)) \<noteq> None
   \<and> url_origin (the (location_href (snd (initiateOAuthFlow example_origin_of example_stringify
        example_env_with_path example_random1 example_random2 None example_browser))))
       @ pathname (the (location_href (snd (initiateOAuthFlow example_origin_of example_stringify
        example_env_with_path example_random1 example_random2 None example_browser))))
       = ''https://auth.valyu.ai/auth/v1/oauth/authorize''"
proof -
  have o: "example_origin_of (the (NEXT_PUBLIC_VALYU_AUTH_URL example_env_with_path)) = Some ''https://auth.valyu.ai''"
    by (simp add: example_env_with_path_def example_origins)
  show ?thesis
    using flow_redirects(2) [of example_env_with_path example_origin_of "''https://auth.valyu.ai''"
        example_stringify example_random1 example_random2 None example_browser]
      o example_configured(2)
    by (simp add: example_env_with_path_def)
qed

lemma flow_storages:
  assumes "isOAuthConfigured env"
  shows "sessionStorage (snd (initiateOAuthFlow origin_of stringify env r1 r2 fv b)) =
      (sessionStorage b)(''oauth_code_verifier'' \<mapsto> generateCodeVerifier r1,
                          ''oauth_state'' \<mapsto> generateCodeVerifier r2)"
    and "localStorage (snd (initiateOAuthFlow origin_of stringify env r1 r2 fv b)) =
      (case fv of
         None \<Rightarrow> localStorage b
       | Some v \<Rightarrow> (localStorage b)(OAUTH_FORM_VALUES_KEY \<mapsto> stringify v))"
  using assms
  by (simp_all add: initiateOAuthFlow_def new_URL_def Let_def saveFormValuesBeforeOAuth_def
      setItem_def split: option.splits)

lemma restore_after_flow:
  assumes "isOAuthConfigured env" and "stringify v \<noteq> []" and "parse (stringify v) = Parsed (Some v)"
  shows "fst (restoreFormValuesAfterOAuth parse
      (navigate_away_and_back (snd (initiateOAuthFlow origin_of stringify env r1 r2 (Some v) b)))) = Some v"
proof -
  let ?b = "navigate_away_and_back (snd (initiateOAuthFlow origin_of stringify env r1 r2 (Some v) b))"
  have "getItem (localStorage ?b) OAUTH_FORM_VALUES_KEY = Some (stringify v)"
    using flow_storages(2) [OF assms(1), of origin_of stringify r1 r2 "Some v" b]
    by (simp add: navigate_away_and_back_def getItem_def)
  from restore_truthy [OF this assms(2), of parse] assms(3) show ?thesis by simp
qed

text \<open>
  Claim C8. A configured \<open>initiateOAuthFlow\<close> writes the code verifier and the
  state token to \<open>sessionStorage\<close> and nothing else there; the only key of
  \<open>localStorage\<close> it writes is the one of the form values, when they are given.
  So a new browsing session finds neither verifier nor state, and the form
  values are still delivered by \<open>restoreFormValuesAfterOAuth\<close> after the navigation
  to the authorization server and back.
\<close>

theorem oauth_storage_scopes:
  "isOAuthConfigured env \<longrightarrow>
     sessionStorage (snd (initiateOAuthFlow origin_of stringify env r1 r2 fv b)) =
       (sessionStorage b)(''oauth_code_verifier'' \<mapsto> generateCodeVerifier r1,
                           ''oauth_state'' \<mapsto> generateCodeVerifier r2)
     \<and> localStorage (snd (initiateOAuthFlow origin_of stringify env r1 r2 fv b)) =
       (case fv of
          None \<Rightarrow> localStorage b
        | Some v \<Rightarrow> (localStorage b)(OAUTH_FORM_VALUES_KEY \<mapsto> stringify v))
     \<and> getItem (sessionStorage (new_browsing_session
          (snd (initiateOAuthFlow origin_of stringify env r1 r2 fv b)))) ''oauth_code_verifier'' = None
     \<and> getItem (sessionStorage (new_browsing_session
          (snd (initiateOAuthFlow origin_of stringify env r1 r2 fv b)))) ''oauth_state'' = None
     \<and> (stringify v \<noteq> [] \<and> parse (stringify v) = Parsed (Some v) \<longrightarrow>
          fst (restoreFormValuesAfterOAuth parse (navigate_away_and_back
            (snd (initiateOAuthFlow origin_of stringify env r1 r2 (Some v) b)))) = Some v)"
proof (intro impI conjI)
  assume c: "isOAuthConfigured env"
  show "sessionStorage (snd (initiateOAuthFlow origin_of stringify env r1 r2 fv b)) =
       (sessionStorage b)(''oauth_code_verifier'' \<mapsto> generateCodeVerifier r1,
                           ''oauth_state'' \<mapsto> generateCodeVerifier r2)"
    using c by (rule flow_storages)
  show "localStorage (snd (initiateOAuthFlow origin_of stringify env r1 r2 fv b)) =
       (case fv of
          None \<Rightarrow> localStorage b
        | Some v \<Rightarrow> (localStorage b)(OAUTH_FORM_VALUES_KEY \<mapsto> stringify v))"
    using c by (rule flow_storages)
  show "getItem (sessionStorage (new_browsing_session
          (snd (initiateOAuthFlow origin_of stringify env r1 r2 fv b)))) ''oauth_code_verifier'' = None"
    by (simp add: new_browsing_session_def getItem_def)
  show "getItem (sessionStorage (new_browsing_session
          (snd (initiateOAuthFlow origin_of stringify env r1 r2 fv b)))) ''oauth_state'' = None"
    by (simp add: new_browsing_session_def getItem_def)
  assume "stringify v \<noteq> [] \<and> parse (stringify v) = Parsed (Some v)"
  then show "fst (restoreFormValuesAfterOAuth parse (navigate_away_and_back
            (snd (initiateOAuthFlow origin_of stringify env r1 r2 (Some v) b)))) = Some v"
    using restore_after_flow [OF c, of stringify v parse origin_of r1 r2 b] by simp
qed

text \<open>Witness for C8: the documented configuration with form values.\<close>

theorem oauth_storage_scopes_witness:
  "isOAuthConfigured example_env
   \<and> example_stringify example_values \<noteq> []
   \<and> example_parse (example_stringify example_values) = Parsed (Some example_values)
   \<and> getItem (sessionStorage (snd (initiateOAuthFlow example_origin_of example_stringify example_env
        example_random1 example_random2 (Some example_values) example_browser))) ''oauth_code_verifier''
       = Some (generateCodeVerifier example_random1)
   \<and> getItem (sessionStorage (snd (initiateOAuthFlow example_origin_of example_stringify example_env
        example_random1 example_random2 (Some example_values) example_browser))) ''oauth_state''
       = Some (generateCodeVerifier example_random2)
   \<and> getItem (localStorage (snd (initiateOAuthFlow example_origin_of example_stringify example_env
        example_random1 example_random2 (Some example_values) example_browser))) ''oauth_code_verifier''
       = None
   \<and> getItem (localStorage (snd (initiateOAuthFlow example_origin_of example_stringify example_env
        example_random1 example_random2 (Some example_values) example_browser))) ''oauth_state''
       = None
   \<and> getItem (localStorage (snd (initiateOAuthFlow example_origin_of example_stringify example_env
        example_random1 example_random2 (Some example_values) example_browser))) OAUTH_FORM_VALUES_KEY
       = Some example_json
   \<and> getItem (sessionStorage (new_browsing_session (snd (initiateOAuthFlow example_origin_of
        example_stringify example_env example_random1 example_random2 (Some example_values)
        example_browser)))) ''oauth_code_verifier'' = None
   \<and> fst (restoreFormValuesAfterOAuth example_parse (navigate_away_and_back
        (snd (initiateOAuthFlow example_origin_of example_stringify example_env example_random1
          example_random2 (Some example_values) example_browser)))) = Some example_values"
proof -
  have h1: "example_stringify example_values \<noteq> []"
    by (simp add: example_stringify_def example_json_nonempty)
  have h2: "example_parse (example_stringify example_values) = Parsed (Some example_values)"
    by (simp add: example_stringify_def example_parse_def)
  have h3: "example_stringify example_values = example_json"
    by (simp add: example_stringify_def)
  from h1 h2 h3 example_configured(1)
    oauth_storage_scopes [of example_env example_origin_of example_stringify example_random1
      example_random2 "Some example_values" example_browser example_values example_parse]
  show ?thesis
    by (simp add: getItem_def example_browser_def OAUTH_FORM_VALUES_KEY_def)
qed

subsection \<open>The route that creates a research task\<close>

text \<open>
  Counterexample to C10 as stated. In self-hosted mode a request whose JSON body
  is \<open>null\<close> passes the authentication gate and has no \<open>supplementName\<close>; the
  destructuring throws, and the handler answers with status 500, not 400 (and
  creates no task).
\<close>

theorem null_body_is_answered_500:
  "POST True example_proxy example_sdk \<lparr>authorization = None, json_body = example_null_body\<rparr> =
     (\<lparr>http_status = 500,
       r_error = Some (''Failed to perform deep research: '' @ example_null_message),
       r_message = None, r_success = None, r_deepresearch_id = None, r_status = None\<rparr>, [])"
  by (simp add: POST_def POST_catch_def Error_def json_error_def example_null_body_def
      example_null_message_def bearer_token_def Let_def)

text \<open>
  Claim C10, amended. A request that passes the authentication gate
  (self-hosted mode, or a non-empty bearer token) and whose JSON body is a value
  other than \<open>null\<close> with no \<open>supplementName\<close>, or an empty one, is answered with
  status 400 and the error \<open>Supplement name is required\<close>, and no call is made to
  the research API. A request that passes the gate and whose body is the JSON
  \<open>null\<close>, or is not JSON, is answered with status 500 and the error
  \<open>Failed to perform deep research:\<close> followed by the message of what was
  thrown, again without a call to the research API. In hosted mode a request
  without a non-empty bearer token is answered with status 401 and
  \<open>AUTH_REQUIRED\<close> before the body is read, whatever the body is.
\<close>

theorem missing_supplement_name_is_rejected:
  "((isSelfHosted \<or> truthy (bearer_token (authorization req)))
      \<and> json_body req = BodyObject f \<and> \<not> truthy (pf_supplementName f) \<longrightarrow>
      POST isSelfHosted proxy sdk req =
        (\<lparr>http_status = 400, r_error = Some ''Supplement name is required'', r_message = None,
          r_success = None, r_deepresearch_id = None, r_status = None\<rparr>, []))
   \<and> ((isSelfHosted \<or> truthy (bearer_token (authorization req)))
      \<and> json_body req = BodyThrows msg \<and> msg \<noteq> ''AUTH_REQUIRED'' \<longrightarrow>
      POST isSelfHosted proxy sdk req =
        (\<lparr>http_status = 500, r_error = Some (''Failed to perform deep research: '' @ msg),
          r_message = None, r_success = None, r_deepresearch_id = None, r_status = None\<rparr>, []))
   \<and> (\<not> isSelfHosted \<and> \<not> truthy (bearer_token (authorization req)) \<longrightarrow>
      POST isSelfHosted proxy sdk req =
        (\<lparr>http_status = 401, r_error = Some ''AUTH_REQUIRED'',
          r_message = Some ''Sign in with Valyu to continue.'',
          r_success = None, r_deepresearch_id = None, r_status = None\<rparr>, []))"
  by (auto simp add: POST_def POST_catch_def Error_def json_error_def Let_def)

lemma bearer_token_examples:
  "bearer_token (Some ''Bearer token-1'') = Some ''token-1''"
  "bearer_token (Some ''Bearer '') = Some []"
  "bearer_token (Some ''Basic abc'') = None"
  "bearer_token None = None"
  by (simp_all add: bearer_token_def startsWith_def)

text \<open>
  Witness for C10: a body without \<open>supplementName\<close>, with a token in hosted mode
  and in self-hosted mode; the body \<open>null\<close> with a token in hosted mode; and a
  request without a token in hosted mode.
\<close>

theorem missing_supplement_name_is_rejected_witness:
  "truthy (bearer_token (Some ''Bearer token-1''))
   \<and> \<not> truthy (pf_supplementName example_fields)
   \<and> POST False example_proxy example_sdk
        \<lparr>authorization = Some ''Bearer token-1'', json_body = BodyObject example_fields\<rparr> =
       (\<lparr>http_status = 400, r_error = Some ''Supplement name is required'', r_message = None,
         r_success = None, r_deepresearch_id = None, r_status = None\<rparr>, [])
   \<and> POST True example_proxy example_sdk
        \<lparr>authorization = None, json_body = BodyObject example_fields\<rparr> =
       (\<lparr>http_status = 400, r_error = Some ''Supplement name is required'', r_message = None,
         r_success = None, r_deepresearch_id = None, r_status = None\<rparr>, [])
   \<and> example_null_body = BodyThrows example_null_message
   \<and> example_null_message \<noteq> ''AUTH_REQUIRED''
   \<and> POST False example_proxy example_sdk
        \<lparr>authorization = Some ''Bearer token-1'', json_body = example_null_body\<rparr> =
       (\<lparr>http_status = 500,
         r_error = Some (''Failed to perform deep research: '' @ example_null_message),
         r_message = None, r_success = None, r_deepresearch_id = None, r_status = None\<rparr>, [])
   \<and> \<not> truthy (bearer_token None)
   \<and> POST False example_proxy example_sdk
        \<lparr>authorization = None, json_body = BodyObject example_fields\<rparr> =
       (\<lparr>http_status = 401, r_error = Some ''AUTH_REQUIRED'',
         r_message = Some ''Sign in with Valyu to continue.'',
         r_success = None, r_deepresearch_id = None, r_status = None\<rparr>, [])"
proof -
  have h4: "example_null_body = BodyThrows example_null_message"
    by (simp add: example_null_body_def)
  have h5: "example_null_message \<noteq> ''AUTH_REQUIRED''"
    by (simp add: example_null_message_def)
  have h1: "truthy (bearer_token (Some ''Bearer token-1''))"
    by (simp add: bearer_token_examples)
  have h2: "\<not> truthy (pf_supplementName example_fields)"
    by (simp add: example_fields_def)
  have h3: "\<not> truthy (bearer_token None)"
    by (simp add: bearer_token_examples)
  from h1 h2 h3 h4 h5
    missing_supplement_name_is_rejected [of False
      "\<lparr>authorization = Some ''Bearer token-1'', json_body = BodyObject example_fields\<rparr>"
      example_fields example_proxy example_sdk example_null_message]
    missing_supplement_name_is_rejected [of True
      "\<lparr>authorization = None, json_body = BodyObject example_fields\<rparr>"
      example_fields example_proxy example_sdk example_null_message]
    missing_supplement_name_is_rejected [of False
      "\<lparr>authorization = Some ''Bearer token-1'', json_body = example_null_body\<rparr>"
      example_fields example_proxy example_sdk example_null_message]
    missing_supplement_name_is_rejected [of False
      "\<lparr>authorization = None, json_body = BodyObject example_fields\<rparr>"
      example_fields example_proxy example_sdk example_null_message]
  show ?thesis by simp
qed

text \<open>The handler on a complete request: one call through the proxy, status 200.\<close>

lemma POST_creates_task:
  "POST False example_proxy example_sdk
     \<lparr>authorization = Some ''Bearer token-1'', json_body = BodyObject example_magnesium\<rparr> =
   (\<lparr>http_status = 200, r_error = None,
     r_message = Some ''Research task created. Poll the status endpoint to check progress.'',
     r_success = Some True, r_deepresearch_id = Some ''abc123'', r_status = Some ''queued''\<rparr>,
    [\<lparr>bearer = Some ''token-1'', call_input = researchQuery example_magnesium, call_model = ''fast'',
      call_output_formats = [''markdown'', ''pdf''],
      call_deliverables = deliverables_for ''Magnesium''\<rparr>])"
  by (simp add: POST_def bearer_token_examples callValyuDeepResearch_def example_proxy_def
      response_ok_def example_magnesium_def example_fields_def Let_def)

subsection \<open>The progress percentage\<close>

lemma round_half_even_error: "\<bar>of_int (round_half_even x) - x\<bar> \<le> 1 / 2"
proof -
  have "of_int \<lfloor>x\<rfloor> \<le> x" and "x < of_int \<lfloor>x\<rfloor> + 1"
    by linarith+
  then show ?thesis
    by (auto simp add: round_half_even_def Let_def)
qed

lemma pow2_bitlen_rat:
  fixes p :: int
  assumes "0 < p"
  shows "(2::rat) powi (bitlen p - 1) \<le> of_int p" and "(of_int p :: rat) < 2 powi (bitlen p)"
proof -
  from assms have b: "1 \<le> bitlen p"
    using bitlen_eq_zero_iff [of p] bitlen_nonneg [of p] by linarith
  from bitlen_bounds [OF assms]
  have lo: "2 ^ nat (bitlen p - 1) \<le> p" and hi: "p < 2 ^ nat (bitlen p)" by simp_all
  have "(2::rat) powi (bitlen p - 1) = 2 ^ nat (bitlen p - 1)"
    using b by (simp add: power_int_def)
  also have "\<dots> = of_int (2 ^ nat (bitlen p - 1))" by simp
  also have "\<dots> \<le> of_int p" using lo by (simp only: of_int_le_iff)
  finally show "(2::rat) powi (bitlen p - 1) \<le> of_int p" .
  have "(of_int p :: rat) < of_int (2 ^ nat (bitlen p))" using hi by (simp only: of_int_less_iff)
  also have "\<dots> = 2 ^ nat (bitlen p)" by simp
  also have "\<dots> = 2 powi (bitlen p)" using b by (simp add: power_int_def)
  finally show "(of_int p :: rat) < 2 powi (bitlen p)" .
qed

lemma ilog2_bounds:
  assumes "0 < x"
  shows "2 powi (ilog2 x) \<le> x" and "x < 2 powi (ilog2 x + 1)"
proof -
  obtain p q where pq: "quotient_of x = (p, q)" by (cases "quotient_of x")
  then have q: "0 < q" by (rule quotient_of_denom_pos)
  from pq have x: "x = of_int p / of_int q" by (rule quotient_of_div)
  with assms q have p: "0 < p" by (simp add: zero_less_divide_iff)
  let ?e0 = "bitlen p - bitlen q"
  have e: "ilog2 x = (if 2 powi ?e0 \<le> x then ?e0 else ?e0 - 1)"
    by (simp add: ilog2_def pq Let_def)
  have qpos: "(0::rat) < of_int q" using q by simp
  have lo: "2 powi (?e0 - 1) \<le> x"
  proof -
    have "(2::rat) powi (?e0 - 1) = 2 powi (bitlen p - 1) / 2 powi (bitlen q)"
      by (simp add: power_int_diff)
    also have "\<dots> \<le> of_int p / 2 powi (bitlen q)"
      using pow2_bitlen_rat(1) [OF p] by (simp add: divide_right_mono)
    also have "\<dots> \<le> of_int p / of_int q"
      using pow2_bitlen_rat(2) [OF q] p qpos by (simp add: frac_le)
    finally show ?thesis by (simp add: x)
  qed
  have hi: "x < 2 powi (?e0 + 1)"
  proof -
    have "x = of_int p / of_int q" by (rule x)
    also have "\<dots> < 2 powi (bitlen p) / of_int q"
      using pow2_bitlen_rat(2) [OF p] qpos by (simp add: divide_strict_right_mono)
    also have "\<dots> \<le> 2 powi (bitlen p) / 2 powi (bitlen q - 1)"
      using pow2_bitlen_rat(1) [OF q] by (simp add: frac_le)
    also have "\<dots> = 2 powi (?e0 + 1)"
      by (simp add: power_int_diff power_int_add)
    finally show ?thesis .
  qed
  show "2 powi (ilog2 x) \<le> x" using lo by (simp add: e)
  show "x < 2 powi (ilog2 x + 1)" using hi by (simp add: e not_le)
qed

lemma binary64_error:
  assumes "0 < x"
  shows "\<bar>binary64 x - x\<bar> \<le> x / 2 ^ 53"
proof -
  let ?u = "(2::rat) powi (ilog2 x - 52)"
  have u: "0 < ?u" by simp
  have "binary64 x - x = (of_int (round_half_even (x / ?u)) - x / ?u) * ?u"
    using assms u by (simp add: binary64_def field_simps)
  then have "\<bar>binary64 x - x\<bar> = \<bar>of_int (round_half_even (x / ?u)) - x / ?u\<bar> * ?u"
    using u by (simp add: abs_mult)
  also have "\<dots> \<le> 1 / 2 * ?u"
    using round_half_even_error [of "x / ?u"] u by (intro mult_right_mono) simp_all
  also have "\<dots> = 2 powi (ilog2 x) / 2 ^ 53"
    by (simp add: power_int_diff)
  also have "\<dots> \<le> x / 2 ^ 53"
    using ilog2_bounds(1) [OF assms] by (simp add: divide_right_mono)
  finally show ?thesis .
qed

lemma binary64_pos:
  assumes "0 < x"
  shows "0 < binary64 x"
proof -
  have "x / 2 ^ 53 < x" using assms by (simp add: field_simps)
  with binary64_error [OF assms] show ?thesis by linarith
qed

lemma scaled_error:
  assumes "0 < x"
  shows "\<bar>binary64 (binary64 x * 100) - 100 * x\<bar> \<le> 100 * x * (3 / 2 ^ 53)"
proof -
  let ?y = "binary64 x"
  let ?z = "binary64 (?y * 100)"
  have y: "0 < ?y" using assms by (rule binary64_pos)
  have e1: "\<bar>?y - x\<bar> \<le> x / 2 ^ 53" using assms by (rule binary64_error)
  then have ybound: "?y \<le> x + x / 2 ^ 53" by linarith
  have e2: "\<bar>?z - ?y * 100\<bar> \<le> ?y * 100 / 2 ^ 53"
    using y by (intro binary64_error) simp
  have "?y * 100 / 2 ^ 53 \<le> (x + x / 2 ^ 53) * 100 / 2 ^ 53"
    using ybound by (simp add: divide_right_mono)
  also have "\<dots> \<le> 2 * x * 100 / 2 ^ 53"
    using assms by (simp add: field_simps)
  finally have e2': "\<bar>?z - ?y * 100\<bar> \<le> 2 * x * 100 / 2 ^ 53" using e2 by linarith
  have e1': "\<bar>?y * 100 - 100 * x\<bar> \<le> 100 * (x / 2 ^ 53)"
    using e1 by linarith
  have "\<bar>?z - 100 * x\<bar> \<le> \<bar>?z - ?y * 100\<bar> + \<bar>?y * 100 - 100 * x\<bar>"
    by linarith
  also have "\<dots> \<le> 2 * x * 100 / 2 ^ 53 + 100 * (x / 2 ^ 53)"
    using e1' e2' by linarith
  also have "\<dots> = 100 * x * (3 / 2 ^ 53)" by (simp add: field_simps)
  finally show ?thesis .
qed

lemma floor_near_fraction:
  fixes z :: rat and n d :: nat
  assumes d: "0 < d" and r: "n mod d \<noteq> 0"
    and close: "\<bar>z - of_nat n / of_nat d\<bar> * of_nat d < 1"
  shows "\<lfloor>z\<rfloor> = int (n div d)"
proof -
  let ?q = "n div d" and ?r = "n mod d"
  have dpos: "(0::rat) < of_nat d" using d by simp
  have "(of_nat (?q * d + ?r) :: rat) = of_nat ?q * of_nat d + of_nat ?r"
    by (simp only: of_nat_add of_nat_mult)
  then have n: "(of_nat n :: rat) = of_nat ?q * of_nat d + of_nat ?r"
    by (simp only: div_mult_mod_eq)
  have pos: "k \<noteq> 0 \<Longrightarrow> 1 \<le> k" for k :: nat by simp
  have "1 \<le> ?r" using r by (rule pos)
  then have "(of_nat 1 :: rat) \<le> of_nat ?r" by (rule of_nat_mono)
  then have r1: "(1::rat) \<le> of_nat ?r" by (simp only: of_nat_1)
  have "?r < d" using d by (rule mod_less_divisor)
  then have "?r + 1 \<le> d" by (simp only: Suc_eq_plus1 [symmetric] Suc_le_eq)
  then have "(of_nat (?r + 1) :: rat) \<le> of_nat d" by (rule of_nat_mono)
  then have r2: "(of_nat ?r :: rat) + 1 \<le> of_nat d" by (simp only: of_nat_add of_nat_1)
  have "\<bar>z - of_nat n / of_nat d\<bar> * of_nat d = \<bar>z * of_nat d - of_nat n\<bar>"
    using dpos by (simp add: abs_mult [symmetric] field_simps del: of_nat_mult of_nat_add)
  with close have c: "\<bar>z * of_nat d - of_nat n\<bar> < 1" by simp
  have "of_nat ?q * of_nat d \<le> z * of_nat d"
    using c n r1 by linarith
  then have lo: "of_int (int ?q) \<le> z"
    using dpos by simp
  have "z * of_nat d < (of_nat ?q + 1) * of_nat d"
    using c n r2 by (simp add: algebra_simps)
  then have hi: "z < of_int (int ?q) + 1"
    using dpos by simp
  from lo hi show ?thesis by (rule floor_unique)
qed

lemma round_percent_div:
  assumes "0 < t"
  shows "round_percent c t = int ((200 * c + t) div (2 * t))"
proof -
  have "100 * of_nat c / of_nat t + (1 / 2 :: rat) = of_nat (200 * c + t) / of_nat (2 * t)"
    using assms by (simp add: field_simps)
  then show ?thesis
    by (simp only: round_percent_def floor_divide_of_nat_eq)
qed

lemma percentage_zero:
  assumes "0 < t"
  shows "percentage \<lparr>current_step = 0, total_steps = t\<rparr> = Some (round_percent 0 t)"
  using assms by (simp add: percentage_def binary64_def Math_round_def round_percent_def)

lemma percentage_nearest:
  assumes t: "0 < t" and c: "0 < c" "c < 2 ^ 43" and r: "\<not> half_way c t"
  shows "percentage \<lparr>current_step = c, total_steps = t\<rparr> = Some (round_percent c t)"
proof -
  let ?x = "of_nat c / of_nat t :: rat"
  let ?z = "binary64 (binary64 ?x * 100)"
  have tpos: "(0::rat) < of_nat t" using t by simp
  have x: "0 < ?x" using t c by simp
  have frac: "of_nat (200 * c + t) / of_nat (2 * t) = 100 * ?x + (1 / 2 :: rat)"
    using t by (simp add: field_simps)
  have "600 * c < 2 ^ 53"
  proof -
    have "600 * c < 600 * 2 ^ 43" using c by simp
    also have "\<dots> < (2::nat) ^ 53" by simp
    finally show ?thesis .
  qed
  then have "(of_nat (600 * c) :: rat) < of_nat (2 ^ 53)" by (simp only: of_nat_less_iff)
  then have small: "600 * (of_nat c :: rat) < 2 ^ 53" by simp
  have "\<bar>?z + 1 / 2 - of_nat (200 * c + t) / of_nat (2 * t)\<bar> * of_nat (2 * t)
      = \<bar>?z - 100 * ?x\<bar> * of_nat (2 * t)"
    by (simp only: frac) simp
  also have "\<dots> \<le> 100 * ?x * (3 / 2 ^ 53) * of_nat (2 * t)"
    using scaled_error [OF x] by (intro mult_right_mono) simp_all
  also have "\<dots> = 600 * of_nat c / 2 ^ 53"
    using t by (simp add: field_simps)
  also have "\<dots> < 1" using small by simp
  finally have close: "\<bar>?z + 1 / 2 - of_nat (200 * c + t) / of_nat (2 * t)\<bar> * of_nat (2 * t) < 1" .
  have "\<lfloor>?z + 1 / 2\<rfloor> = int ((200 * c + t) div (2 * t))"
    using t r close by (intro floor_near_fraction) (simp_all add: half_way_def)
  then show ?thesis
    using t by (simp add: percentage_def Math_round_def round_percent_div)
qed

text \<open>
  Counterexample to C9 as stated. Steps 23 of 40 are 57.5 percent exactly, which
  rounds to 58; the quotient \<open>23 / 40\<close> times 100 is the double just below 57.5,
  and the view shows 57.
\<close>

theorem percentage_23_of_40:
  "half_way 23 40
   \<and> round_percent 23 40 = 58
   \<and> percentage \<lparr>current_step = 23, total_steps = 40\<rparr> = Some 57"
  by code_simp

text \<open>
  Claim C9, amended. For a payload with \<open>t\<close> positive, both step counts in the
  range where they are exact (\<open>c\<close> below \<open>2^43\<close>, \<open>t\<close> below \<open>2^53\<close>) and \<open>100 * c / t\<close>
  not exactly half-way between two integers, the percentage shown is
  \<open>100 * c / t\<close> rounded to the nearest integer. The payload with steps 3 of 10
  shows 30.
\<close>

theorem percentage_is_rounded_ratio:
  "(0 < t \<and> t < 2 ^ 53 \<and> c < 2 ^ 43 \<and> \<not> half_way c t \<longrightarrow>
      percentage \<lparr>current_step = c, total_steps = t\<rparr> = Some (round_percent c t))
   \<and> percentage \<lparr>current_step = 3, total_steps = 10\<rparr> = Some 30"
proof (intro conjI impI)
  assume a: "0 < t \<and> t < 2 ^ 53 \<and> c < 2 ^ 43 \<and> \<not> half_way c t"
  show "percentage \<lparr>current_step = c, total_steps = t\<rparr> = Some (round_percent c t)"
  proof (cases "c = 0")
    case True
    with a show ?thesis by (simp add: percentage_zero)
  next
    case False
    with a show ?thesis by (simp add: percentage_nearest)
  qed
next
  show "percentage \<lparr>current_step = 3, total_steps = 10\<rparr> = Some 30"
    by code_simp
qed

text \<open>
  Witness for C9: steps 1 of 5, the first poll of the end-to-end scenario, show
  20.
\<close>

theorem percentage_is_rounded_ratio_witness:
  "(0::nat) < 5 \<and> (5::nat) < 2 ^ 53 \<and> (1::nat) < 2 ^ 43 \<and> \<not> half_way 1 5
   \<and> round_percent 1 5 = 20
   \<and> percentage \<lparr>current_step = 1, total_steps = 5\<rparr> = Some 20"
proof -
  have h: "\<not> half_way 1 5" by (simp add: half_way_def)
  have r: "round_percent 1 5 = 20" by code_simp
  from h r percentage_is_rounded_ratio [of 5 1] show ?thesis by simp
qed

end
